theory Spec2Isabelle
  imports Main "HOL-Library.Sublist"
begin

section \<open>The next-drupal base client (next-drupal-base.ts)\<close>

text \<open>
  A shallow embedding of the class \<open>NextDrupalBase\<close> of
  \<^verbatim>\<open>packages/next-drupal/src/next-drupal-base.ts\<close>. A JavaScript string is a
  \<^typ>\<open>string\<close> holding its UTF-8 bytes, so only well-formed strings (no lone
  surrogates) are covered; a property that is absent and a property whose value is
  \<^verbatim>\<open>undefined\<close> are both \<^term>\<open>None\<close>. An \<^verbatim>\<open>async\<close> method is the function from
  the state before the call to its outcome and the state after it; a rejected promise
  and a \<^verbatim>\<open>throw\<close> are the left summand of the result. The debug log is not part of
  the state: \<^verbatim>\<open>this.debug\<close> calls are left out.
\<close>

subsection \<open>Strings of the JavaScript runtime\<close>

definition startsWith :: "string \<Rightarrow> string \<Rightarrow> bool" where
  "startsWith s p = prefix p s"

definition endsWith :: "string \<Rightarrow> string \<Rightarrow> bool" where
  "endsWith s p = suffix p s"

text \<open>\<^verbatim>\<open>s.slice(0, -1)\<close>: the string without its last character.\<close>

definition slice_0_minus1 :: "string \<Rightarrow> string" where
  "slice_0_minus1 s = butlast s"

text \<open>\<^verbatim>\<open>parts.join(sep)\<close>.\<close>

fun join :: "string list \<Rightarrow> string \<Rightarrow> string" where
  "join [] sep = []"
| "join [x] sep = x"
| "join (x # y # ys) sep = x @ sep @ join (y # ys) sep"

text \<open>
  A template literal prints an absent value as the word \<^verbatim>\<open>undefined\<close>.
\<close>

definition template :: "string option \<Rightarrow> string" where
  "template v = (case v of Some s \<Rightarrow> s | None \<Rightarrow> ''undefined'')"

text \<open>Truthiness of a value that is a string or \<^verbatim>\<open>undefined\<close>.\<close>

definition truthy_string :: "string option \<Rightarrow> bool" where
  "truthy_string v = (case v of Some s \<Rightarrow> s \<noteq> [] | None \<Rightarrow> False)"

text \<open>
  \<^verbatim>\<open>encodeURIComponent\<close>: every byte of the UTF-8 form is written as \<^verbatim>\<open>%XX\<close>
  (upper-case hexadecimal) unless it is one of the unreserved characters
  \<^verbatim>\<open>A-Z a-z 0-9 - _ . ! ~ * ' ( )\<close>.
\<close>

definition uri_unreserved :: "char \<Rightarrow> bool" where
  "uri_unreserved ch \<longleftrightarrow>
     ch \<in> set (''ABCDEFGHIJKLMNOPQRSTUVWXYZ'' @ ''abcdefghijklmnopqrstuvwxyz'' @
               ''0123456789'' @ ''-_.!~*'' @ [CHR 0x27] @ ''()'')"

definition hex_digit :: "nat \<Rightarrow> char" where
  "hex_digit n = ''0123456789ABCDEF'' ! (n mod 16)"

definition percent_encode :: "char \<Rightarrow> string" where
  "percent_encode ch =
     [CHR ''%'', hex_digit ((of_char ch :: nat) div 16), hex_digit ((of_char ch :: nat) mod 16)]"

definition encodeURIComponent :: "string \<Rightarrow> string" where
  "encodeURIComponent s =
     concat (map (\<lambda>ch. if uri_unreserved ch then [ch] else percent_encode ch) s)"

text \<open>
  \<^verbatim>\<open>Buffer.from(s).toString("base64")\<close>: the standard base64 alphabet with padding, over
  the UTF-8 bytes of the string.
\<close>

definition base64_digit :: "nat \<Rightarrow> char" where
  "base64_digit n =
     (''ABCDEFGHIJKLMNOPQRSTUVWXYZ'' @ ''abcdefghijklmnopqrstuvwxyz'' @ ''0123456789+/'') ! (n mod 64)"

fun base64_bytes :: "nat list \<Rightarrow> string" where
  "base64_bytes [] = []"
| "base64_bytes [a] =
     [base64_digit (a div 4), base64_digit ((a mod 4) * 16), CHR ''='', CHR ''='']"
| "base64_bytes [a, b] =
     [base64_digit (a div 4), base64_digit ((a mod 4) * 16 + b div 16),
      base64_digit ((b mod 16) * 4), CHR ''='']"
| "base64_bytes (a # b # c # rest) =
     [base64_digit (a div 4), base64_digit ((a mod 4) * 16 + b div 16),
      base64_digit ((b mod 16) * 4 + c div 64), base64_digit (c mod 64)] @ base64_bytes rest"

definition base64 :: "string \<Rightarrow> string" where
  "base64 s = base64_bytes (map of_char s)"

text \<open>The decimal form of a natural number, as \<^verbatim>\<open>String(n)\<close> writes it.\<close>

fun decimal :: "nat \<Rightarrow> string" where
  "decimal n = (if n < 10 then [''0123456789'' ! n]
                else decimal (n div 10) @ [''0123456789'' ! (n mod 10)])"

declare decimal.simps [simp del]

subsection \<open>JSON values, errors, headers, requests and responses\<close>

text \<open>
  A parsed JSON value. Numbers are kept as integers (of a size that is written
  without an exponent): the class reads a number for its truth value, for
  \<^verbatim>\<open>expires_in\<close>, and to print it.
\<close>

datatype JsonValue =
    JNull
  | JBool bool
  | JNum int
  | JStr string
  | JArr "JsonValue list"
  | JObj "(string \<times> JsonValue) list"

fun truthy :: "JsonValue \<Rightarrow> bool" where
  "truthy JNull = False"
| "truthy (JBool b) = b"
| "truthy (JNum n) = (n \<noteq> 0)"
| "truthy (JStr s) = (s \<noteq> [])"
| "truthy (JArr xs) = True"
| "truthy (JObj fs) = True"

text \<open>
  \<^verbatim>\<open>v.name\<close> for the property names this class reads (\<^verbatim>\<open>message\<close>, \<^verbatim>\<open>errors\<close>,
  \<^verbatim>\<open>length\<close>, the fields of a token); \<^term>\<open>None\<close> is \<^verbatim>\<open>undefined\<close>. An object
  answers with its own property, an array and a string only with their length.
  \<^verbatim>\<open>v?.name\<close> is \<open>opt_prop\<close>: \<^verbatim>\<open>undefined\<close> when \<open>v\<close> is \<^verbatim>\<open>undefined\<close> or \<^verbatim>\<open>null\<close>.
\<close>

fun property :: "JsonValue \<Rightarrow> string \<Rightarrow> JsonValue option" where
  "property (JObj fs) name = map_of fs name"
| "property (JArr xs) name = (if name = ''length'' then Some (JNum (int (length xs))) else None)"
| "property (JStr s) name = (if name = ''length'' then Some (JNum (int (length s))) else None)"
| "property v name = None"

definition opt_prop :: "JsonValue option \<Rightarrow> string \<Rightarrow> JsonValue option" where
  "opt_prop v name = (case v of None \<Rightarrow> None | Some JNull \<Rightarrow> None | Some j \<Rightarrow> property j name)"

definition truthy_opt :: "JsonValue option \<Rightarrow> bool" where
  "truthy_opt v = (case v of None \<Rightarrow> False | Some j \<Rightarrow> truthy j)"

text \<open>
  What can be thrown. \<open>Error m\<close> is \<^verbatim>\<open>new Error(m)\<close> of this class;
  \<open>JsonApiErrors errors statusCode messagePrefix\<close> is
  \<^verbatim>\<open>new JsonApiErrors(errors, statusCode, messagePrefix)\<close>, kept with the three
  arguments of its constructor; \<open>PlatformError m\<close> is an error object with message
  \<open>m\<close> raised outside the class: by the transport, by \<^verbatim>\<open>new URL\<close>, by
  \<^verbatim>\<open>new Headers\<close> and \<^verbatim>\<open>headers.set\<close>, by \<^verbatim>\<open>response.json()\<close>, by an
  authorization callback, or by the runtime itself (a \<^verbatim>\<open>TypeError\<close>). A transport
  and a callback can also reject with a value that is not an error object:
  \<open>Thrown v\<close> is such a value, \<open>Thrown None\<close> being \<^verbatim>\<open>undefined\<close>.
\<close>

datatype error =
    Error string
  | JsonApiErrors JsonValue nat string
  | PlatformError string
  | Thrown "JsonValue option"

text \<open>
  \<^verbatim>\<open>v.name\<close> for a value \<open>v\<close> that can be \<^verbatim>\<open>null\<close>: reading a property of
  \<^verbatim>\<open>null\<close> or \<^verbatim>\<open>undefined\<close> throws a \<^verbatim>\<open>TypeError\<close> (with the wording of V8).
\<close>

definition cannot_read :: "string \<Rightarrow> string \<Rightarrow> error" where
  "cannot_read what name =
     PlatformError (''Cannot read properties of '' @ what @ '' (reading '' @ [CHR 0x27] @ name @
                    [CHR 0x27] @ '')'')"

definition read_property :: "JsonValue option \<Rightarrow> string \<Rightarrow> error + JsonValue option" where
  "read_property v name =
     (case v of
        None \<Rightarrow> Inl (cannot_read ''undefined'' name)
      | Some JNull \<Rightarrow> Inl (cannot_read ''null'' name)
      | Some j \<Rightarrow> Inr (property j name))"

text \<open>
  \<^verbatim>\<open>String(v)\<close>, which a template literal applies to a value: a number in decimal, an
  array as its elements joined by commas (with \<^verbatim>\<open>null\<close> as the empty string), an
  object as \<^verbatim>\<open>[object Object]\<close>. An object parsed from JSON that has a property
  \<^verbatim>\<open>toString\<close> of its own hides the method of that name, and the conversion throws
  a \<^verbatim>\<open>TypeError\<close>: that is \<^term>\<open>None\<close> in \<open>to_primitive\<close>.
\<close>

fun to_primitive :: "JsonValue \<Rightarrow> string option" where
  "to_primitive JNull = Some ''null''"
| "to_primitive (JBool b) = Some (if b then ''true'' else ''false'')"
| "to_primitive (JNum n) = Some (if n < 0 then ''-'' @ decimal (nat (- n)) else decimal (nat n))"
| "to_primitive (JStr s) = Some s"
| "to_primitive (JArr xs) =
     map_option (\<lambda>parts. join parts '','')
       (those (map (\<lambda>x. if x = JNull then Some [] else to_primitive x) xs))"
| "to_primitive (JObj fs) =
     (if map_of fs ''toString'' = None then Some ''[object Object]'' else None)"

definition cannot_convert :: error where
  "cannot_convert = PlatformError ''Cannot convert object to primitive value''"

definition template_json :: "JsonValue option \<Rightarrow> error + string" where
  "template_json v =
     (case v of
        None \<Rightarrow> Inr ''undefined''
      | Some j \<Rightarrow> (case to_primitive j of Some s \<Rightarrow> Inr s | None \<Rightarrow> Inl cannot_convert))"

text \<open>
  A \<^verbatim>\<open>Headers\<close> object (of the runtime, as the Fetch standard has it): header names
  in lower case, each name once, the values of a repeated name joined by a comma and a
  space.
\<close>

type_synonym Headers = "(string \<times> string) list"

definition ascii_lower :: "char \<Rightarrow> char" where
  "ascii_lower ch =
     (if 65 \<le> (of_char ch :: nat) \<and> (of_char ch :: nat) \<le> 90
      then char_of ((of_char ch :: nat) + 32) else ch)"

definition lower :: "string \<Rightarrow> string" where
  "lower s = map ascii_lower s"

definition Headers_get :: "Headers \<Rightarrow> string \<Rightarrow> string option" where
  "Headers_get hs name = map_of hs (lower name)"

fun alist_set :: "string \<Rightarrow> string \<Rightarrow> Headers \<Rightarrow> Headers" where
  "alist_set k v [] = [(k, v)]"
| "alist_set k v (p # ps) = (if fst p = k then (k, v) # ps else p # alist_set k v ps)"

text \<open>
  \<^verbatim>\<open>set\<close> and \<^verbatim>\<open>append\<close> first normalise the value, removing the tabs, line
  feeds, carriage returns and spaces at its two ends, and then throw a
  \<^verbatim>\<open>TypeError\<close> unless the name is a token and the value is a header value: no
  byte 0, line feed or carriage return in it, and no character above U+00FF, which in
  the UTF-8 form of the string is a byte from \<^verbatim>\<open>0xC4\<close> on. The wording of the
  message is the runtime's own; the model has one wording.
\<close>

definition http_whitespace :: "char \<Rightarrow> bool" where
  "http_whitespace ch \<longleftrightarrow> ch \<in> set [CHR 0x09, CHR 0x0A, CHR 0x0D, CHR 0x20]"

definition normalize_value :: "string \<Rightarrow> string" where
  "normalize_value v = rev (dropWhile http_whitespace (rev (dropWhile http_whitespace v)))"

definition valid_value :: "string \<Rightarrow> bool" where
  "valid_value v \<longleftrightarrow>
     list_all (\<lambda>ch. ch \<notin> set [CHR 0x00, CHR 0x0A, CHR 0x0D] \<and> (of_char ch :: nat) < 0xC4) v"

definition token_char :: "char \<Rightarrow> bool" where
  "token_char ch \<longleftrightarrow>
     ch \<in> set (''ABCDEFGHIJKLMNOPQRSTUVWXYZ'' @ ''abcdefghijklmnopqrstuvwxyz'' @
               ''0123456789'' @ ''!#$%&'' @ [CHR 0x27] @ ''*+-.^_'' @ [CHR 0x60] @ ''|~'')"

definition valid_name :: "string \<Rightarrow> bool" where
  "valid_name name \<longleftrightarrow> name \<noteq> [] \<and> list_all token_char name"

definition invalid_header :: error where
  "invalid_header = PlatformError ''Invalid header name or value''"

definition Headers_set :: "Headers \<Rightarrow> string \<Rightarrow> string \<Rightarrow> error + Headers" where
  "Headers_set hs name v =
     (if valid_name name \<and> valid_value (normalize_value v)
      then Inr (alist_set (lower name) (normalize_value v) hs)
      else Inl invalid_header)"

text \<open>The entry that \<^verbatim>\<open>append\<close> adds, for a valid name and value.\<close>

definition Headers_add :: "Headers \<Rightarrow> string \<Rightarrow> string \<Rightarrow> Headers" where
  "Headers_add hs name v =
     (case map_of hs (lower name) of
        None \<Rightarrow> hs @ [(lower name, v)]
      | Some old \<Rightarrow> alist_set (lower name) (old @ '', '' @ v) hs)"

definition Headers_append :: "Headers \<Rightarrow> string \<Rightarrow> string \<Rightarrow> error + Headers" where
  "Headers_append hs name v =
     (if valid_name name \<and> valid_value (normalize_value v)
      then Inr (Headers_add hs name (normalize_value v))
      else Inl invalid_header)"

text \<open>
  \<^verbatim>\<open>headers.keys()\<close>. The runtime lists the names in sorted order; the model lists them
  in the order of the collection, which the loop of \<open>fetch\<close> cannot tell apart (it
  sets one name per step).
\<close>

definition Headers_keys :: "Headers \<Rightarrow> string list" where
  "Headers_keys hs = map fst hs"

text \<open>A loop whose body can throw: the first exception ends it.\<close>

fun fold_sum :: "('a \<Rightarrow> 's \<Rightarrow> error + 's) \<Rightarrow> 'a list \<Rightarrow> 's \<Rightarrow> error + 's" where
  "fold_sum f [] s = Inr s"
| "fold_sum f (x # xs) s = (case f x s of Inl e \<Rightarrow> Inl e | Inr s' \<Rightarrow> fold_sum f xs s')"

text \<open>
  \<^verbatim>\<open>HeadersInit\<close>: a record or a list of name and value pairs, or a \<^verbatim>\<open>Headers\<close>
  object. \<^verbatim>\<open>new Headers(init)\<close> appends the pairs one by one. It does the same
  with the entries of a \<^verbatim>\<open>Headers\<close> object, which are valid, so that nothing is
  thrown for them; their values are normalised again (the joined value of a repeated
  name can end with a space).
\<close>

datatype HeadersInit = HeadersPairs "(string \<times> string) list" | HeadersObject Headers

definition Headers_copy :: "Headers \<Rightarrow> Headers" where
  "Headers_copy hs = fold (\<lambda>(name, v) acc. Headers_add acc name (normalize_value v)) hs []"

fun Headers_new :: "HeadersInit \<Rightarrow> error + Headers" where
  "Headers_new (HeadersPairs ps) = fold_sum (\<lambda>(name, v) hs. Headers_append hs name v) ps []"
| "Headers_new (HeadersObject hs) = Inr (Headers_copy hs)"

text \<open>
  The body of a request: a string, a \<^verbatim>\<open>URLSearchParams\<close> object, or the text
  \<^verbatim>\<open>JSON.stringify(j)\<close>, kept as the value \<open>j\<close> it is the text of.
\<close>

datatype BodyInit =
    BodyString string
  | BodyParams "(string \<times> string) list"
  | BodyJson JsonValue

text \<open>\<^verbatim>\<open>RequestInit\<close>; the field \<open>method'\<close> is the option \<^verbatim>\<open>method\<close>.\<close>

record RequestInit =
  method' :: "string option"
  headers :: "HeadersInit option"
  body :: "BodyInit option"
  credentials :: "string option"

text \<open>
  The object the transport answers with (section 6 of the specification: \<^verbatim>\<open>ok\<close>,
  \<^verbatim>\<open>status\<close>, \<^verbatim>\<open>statusText\<close>, \<^verbatim>\<open>headers.get\<close>, \<^verbatim>\<open>json()\<close>). The field \<open>json\<close> is
  the outcome of \<^verbatim>\<open>response.json()\<close>: the parsed body, or the exception of a body that
  does not parse.
\<close>

record Response =
  ok :: bool
  status :: nat
  statusText :: string
  response_headers :: Headers
  json :: "error + JsonValue"

text \<open>
  \<^verbatim>\<open>new Response(JSON.stringify(j), {status})\<close>: a text body that parses back to \<open>j\<close>.
\<close>

definition Response_new_json :: "JsonValue \<Rightarrow> nat \<Rightarrow> Response" where
  "Response_new_json j st =
     \<lparr>ok = (200 \<le> st \<and> st \<le> 299), status = st, statusText = [],
      response_headers = [(''content-type'', ''text/plain;charset=UTF-8'')],
      json = Inr j\<rparr>"

text \<open>\<^verbatim>\<open>RequestInfo\<close>: a string, or a request descriptor (kept by its URL).\<close>

datatype RequestInfo = InputString string | InputRequest string

text \<open>What the transport is called with: \<^verbatim>\<open>(input, init)\<close>.\<close>

record Request =
  request_input :: RequestInfo
  request_init :: RequestInit

text \<open>
  A transport (the injected \<^verbatim>\<open>fetcher\<close> or the global \<^verbatim>\<open>fetch\<close>): from the request and
  the time of the call to the outcome and the time at which it is there.
\<close>

type_synonym transport = "Request \<Rightarrow> int \<Rightarrow> (error + Response) \<times> int"

text \<open>
  The world outside the client: the clock read by \<^verbatim>\<open>Date.now()\<close>, the requests handed
  to a transport so far, and the global \<^verbatim>\<open>fetch\<close>.
\<close>

record world =
  now :: int
  sent :: "Request list"
  global_fetch :: transport

definition call_transport :: "transport \<Rightarrow> Request \<Rightarrow> world \<Rightarrow> (error + Response) \<times> world" where
  "call_transport t req w =
     (case t req (now w) of (r, t') \<Rightarrow> (r, w\<lparr>now := t', sent := sent w @ [req]\<rparr>))"

subsection \<open>Authentication configurations and the client\<close>

text \<open>
  An authentication object is told apart by the fields it has, so one record holds
  the fields of the three shapes \<^verbatim>\<open>NextDrupalAuthUsernamePassword\<close>,
  \<^verbatim>\<open>NextDrupalAuthClientIdSecret\<close> and \<^verbatim>\<open>NextDrupalAuthAccessToken\<close>.
\<close>

record AuthFields =
  username :: "string option"
  password :: "string option"
  clientId :: "string option"
  clientSecret :: "string option"
  url :: "string option"
  scope :: "string option"
  access_token :: "string option"
  token_type :: "string option"

definition no_fields :: AuthFields where
  "no_fields =
     \<lparr>username = None, password = None, clientId = None, clientSecret = None,
      url = None, scope = None, access_token = None, token_type = None\<rparr>"

text \<open>
  \<^verbatim>\<open>NextDrupalAuth\<close>: an object, a string, or a function of no argument that gives a
  string (or throws). An absent configuration is \<^term>\<open>None\<close>.
\<close>

datatype NextDrupalAuth =
    AuthObject AuthFields
  | AuthString string
  | AuthCallback "unit \<Rightarrow> error + string"

text \<open>
  The fields read through \<^verbatim>\<open>auth?.field\<close>: a string, a function and \<^verbatim>\<open>undefined\<close>
  have none of them.
\<close>

definition fields_of :: "NextDrupalAuth option \<Rightarrow> AuthFields" where
  "fields_of a = (case a of Some (AuthObject f) \<Rightarrow> f | _ \<Rightarrow> no_fields)"

definition isBasicAuth :: "NextDrupalAuth option \<Rightarrow> bool" where
  "isBasicAuth a \<longleftrightarrow> username (fields_of a) \<noteq> None \<and> password (fields_of a) \<noteq> None"

definition isAccessTokenAuth :: "NextDrupalAuth option \<Rightarrow> bool" where
  "isAccessTokenAuth a \<longleftrightarrow>
     access_token (fields_of a) \<noteq> None \<and> token_type (fields_of a) \<noteq> None"

definition isClientIdSecretAuth :: "NextDrupalAuth option \<Rightarrow> bool" where
  "isClientIdSecretAuth a \<longleftrightarrow>
     clientId (fields_of a) \<noteq> None \<and> clientSecret (fields_of a) \<noteq> None"

text \<open>
  The instance. \<open>auth\<close>, \<open>client_headers\<close>, \<open>apiPrefix\<close>, \<open>token\<close>,
  \<open>tokenExpiresOn\<close> and \<open>tokenRequestDetails\<close> are the private fields \<^verbatim>\<open>_auth\<close>,
  \<^verbatim>\<open>_headers\<close>, \<^verbatim>\<open>_apiPrefix\<close>, \<^verbatim>\<open>_token\<close>, \<^verbatim>\<open>_tokenExpiresOn\<close> and
  \<^verbatim>\<open>_tokenRequestDetails\<close>; \<open>client_withAuth\<close> is the field \<^verbatim>\<open>withAuth\<close>.

  A token is the value it is at run time: the declaration \<^verbatim>\<open>AccessToken\<close> is a
  type of the compiler only, and \<open>getAccessToken\<close> stores and returns whatever the
  body of the token response parses to. So \<open>accessToken\<close> and \<open>token\<close> hold a JSON
  value; a token of the declared type is an object with the properties
  \<^verbatim>\<open>token_type\<close>, \<^verbatim>\<open>access_token\<close> and \<^verbatim>\<open>expires_in\<close>. \<open>tokenExpiresOn\<close> is a
  number that the class only compares with the clock: \<^term>\<open>None\<close> is
  \<^verbatim>\<open>undefined\<close> or \<^verbatim>\<open>NaN\<close>, for which every comparison is false.
\<close>

record client =
  accessToken :: "JsonValue option"
  baseUrl :: string
  fetcher :: "transport option"
  frontPage :: string
  client_withAuth :: bool
  apiPrefix :: string
  auth :: "NextDrupalAuth option"
  client_headers :: Headers
  token :: "JsonValue option"
  tokenExpiresOn :: "int option"
  tokenRequestDetails :: "AuthFields option"

definition DEFAULT_API_PREFIX :: string where "DEFAULT_API_PREFIX = []"
definition DEFAULT_FRONT_PAGE :: string where "DEFAULT_FRONT_PAGE = ''/home''"
definition DEFAULT_WITH_AUTH :: bool where "DEFAULT_WITH_AUTH = False"
definition DEFAULT_AUTH_URL :: string where "DEFAULT_AUTH_URL = ''/oauth/token''"

definition DEFAULT_HEADERS :: HeadersInit where
  "DEFAULT_HEADERS =
     HeadersPairs [(''Content-Type'', ''application/json''), (''Accept'', ''application/json'')]"

definition auth_not_configured :: error where
  "auth_not_configured =
     Error ''auth is not configured. See https://next-drupal.org/docs/client/auth''"

text \<open>
  The setters \<^verbatim>\<open>set apiPrefix\<close>, \<^verbatim>\<open>set auth\<close> and \<^verbatim>\<open>set headers\<close>; \<^verbatim>\<open>set token\<close>
  is below, with the platform it reads numbers through.
\<close>

definition set_apiPrefix :: "client \<Rightarrow> string \<Rightarrow> client" where
  "set_apiPrefix c p =
     c\<lparr>apiPrefix := (if p = [] \<or> startsWith p ''/'' then p else ''/'' @ p)\<rparr>"

definition set_auth :: "client \<Rightarrow> NextDrupalAuth option \<Rightarrow> error + client" where
  "set_auth c a =
     (case a of
        Some (AuthObject f) \<Rightarrow>
          (case (if username f \<noteq> None \<or> password f \<noteq> None then
                   (if \<not> truthy_string (username f) \<or> \<not> truthy_string (password f)
                    then Some (Error ('''username' and 'password' are required for auth. '' @
                                      ''See https://next-drupal.org/docs/client/auth''))
                    else None)
                 else if access_token f \<noteq> None \<or> token_type f \<noteq> None then
                   (if \<not> truthy_string (access_token f) \<or> \<not> truthy_string (token_type f)
                    then Some (Error ('''access_token' and 'token_type' are required for auth. '' @
                                      ''See https://next-drupal.org/docs/client/auth''))
                    else None)
                 else if \<not> truthy_string (clientId f) \<or> \<not> truthy_string (clientSecret f)
                 then Some (Error ('''clientId' and 'clientSecret' are required for auth. '' @
                                   ''See https://next-drupal.org/docs/client/auth''))
                 else None)
           of
             Some e \<Rightarrow> Inl e
           | None \<Rightarrow>
               Inr (c\<lparr>auth := Some (AuthObject
                      (if isClientIdSecretAuth a
                       then f\<lparr>url := (case url f of
                                        Some u \<Rightarrow> Some u | None \<Rightarrow> Some DEFAULT_AUTH_URL)\<rparr>
                       else f))\<rparr>))
      | _ \<Rightarrow> Inr (c\<lparr>auth := a\<rparr>))"

definition set_headers :: "client \<Rightarrow> HeadersInit \<Rightarrow> error + client" where
  "set_headers c h =
     (case Headers_new h of Inl e \<Rightarrow> Inl e | Inr hs \<Rightarrow> Inr (c\<lparr>client_headers := hs\<rparr>))"

text \<open>The options of the constructor (\<^verbatim>\<open>debug\<close> and \<^verbatim>\<open>logger\<close> left out).\<close>

record NextDrupalBaseOptions =
  opt_accessToken :: "JsonValue option"
  opt_apiPrefix :: "string option"
  opt_auth :: "NextDrupalAuth option"
  opt_fetcher :: "transport option"
  opt_frontPage :: "string option"
  opt_headers :: "HeadersInit option"
  opt_withAuth :: "bool option"

definition no_options :: NextDrupalBaseOptions where
  "no_options =
     \<lparr>opt_accessToken = None, opt_apiPrefix = None, opt_auth = None, opt_fetcher = None,
      opt_frontPage = None, opt_headers = None, opt_withAuth = None\<rparr>"

definition NextDrupalBase_new :: "string \<Rightarrow> NextDrupalBaseOptions \<Rightarrow> error + client" where
  "NextDrupalBase_new base options =
     (if base = [] then Inl (Error ''The 'baseUrl' param is required.'')
      else
        (let c0 = \<lparr>accessToken = opt_accessToken options, baseUrl = [], fetcher = None,
                   frontPage = [], client_withAuth = False, apiPrefix = [], auth = None,
                   client_headers = [], token = None, tokenExpiresOn = None,
                   tokenRequestDetails = None\<rparr>;
             c1 = set_apiPrefix c0
                    (case opt_apiPrefix options of Some p \<Rightarrow> p | None \<Rightarrow> DEFAULT_API_PREFIX)
         in case set_auth c1 (opt_auth options) of
              Inl e \<Rightarrow> Inl e
            | Inr c2 \<Rightarrow>
                (case set_headers
                        (c2\<lparr>baseUrl := base, fetcher := opt_fetcher options,
                            frontPage := (case opt_frontPage options of
                                            Some p \<Rightarrow> p | None \<Rightarrow> DEFAULT_FRONT_PAGE)\<rparr>)
                        (case opt_headers options of Some h \<Rightarrow> h | None \<Rightarrow> DEFAULT_HEADERS) of
                   Inl e \<Rightarrow> Inl e
                 | Inr c3 \<Rightarrow>
                     Inr (c3\<lparr>client_withAuth :=
                               (case opt_withAuth options of
                                  Some b \<Rightarrow> b | None \<Rightarrow> DEFAULT_WITH_AUTH)\<rparr>))))"

subsection \<open>The platform: URL objects, the query serialiser, error messages\<close>

text \<open>
  The class \<^verbatim>\<open>URL\<close> of the runtime, \<^verbatim>\<open>stringify\<close> of the package \<^verbatim>\<open>qs\<close> and the
  class \<^verbatim>\<open>JsonApiErrors\<close> are not part of the file. The client takes them as a
  parameter: \<open>URL_new path base\<close> is \<^verbatim>\<open>new URL(path, base)\<close> (it can throw),
  \<open>URL_set_search\<close> the assignment to \<^verbatim>\<open>url.search\<close>, \<open>URL_toString\<close> is
  \<^verbatim>\<open>url.toString()\<close>, and \<open>JsonApiErrors_message\<close> gives the \<^verbatim>\<open>message\<close> that the
  constructor of \<^verbatim>\<open>JsonApiErrors\<close> assembles from its three arguments.
  \<open>StringToNumber\<close> is the number that the runtime reads a string as when it
  multiplies it (\<^term>\<open>None\<close> for \<^verbatim>\<open>NaN\<close>).
\<close>

datatype QsValue =
    QsString string
  | QsArray "QsValue list"
  | QsObject "(string \<times> QsValue) list"

text \<open>
  \<^verbatim>\<open>EndpointSearchParams\<close>: a string, a record, a \<^verbatim>\<open>URLSearchParams\<close> object, or an
  object with a method \<^verbatim>\<open>getQueryObject\<close>, kept as the record that method returns.
\<close>

datatype EndpointSearchParams =
    SearchString string
  | SearchRecord "(string \<times> QsValue) list"
  | SearchURLSearchParams "(string \<times> string) list"
  | SearchJsonApiParams "(string \<times> QsValue) list"

record 'url platform =
  URL_new :: "string \<Rightarrow> string \<Rightarrow> error + 'url"
  URL_set_search :: "'url \<Rightarrow> string \<Rightarrow> 'url"
  URL_toString :: "'url \<Rightarrow> string"
  stringify :: "EndpointSearchParams \<Rightarrow> string"
  JsonApiErrors_message :: "JsonValue \<Rightarrow> nat \<Rightarrow> string \<Rightarrow> string"
  StringToNumber :: "string \<Rightarrow> int option"

text \<open>
  \<^verbatim>\<open>error.message\<close> for a caught value: the message of an error object; the
  property \<^verbatim>\<open>message\<close> of another value, when it has one; for \<^verbatim>\<open>null\<close> and
  \<^verbatim>\<open>undefined\<close> the read throws.
\<close>

definition message :: "'url platform \<Rightarrow> error \<Rightarrow> error + JsonValue option" where
  "message rt e =
     (case e of
        Error m \<Rightarrow> Inr (Some (JStr m))
      | PlatformError m \<Rightarrow> Inr (Some (JStr m))
      | JsonApiErrors errors st pre \<Rightarrow> Inr (Some (JStr (JsonApiErrors_message rt errors st pre)))
      | Thrown v \<Rightarrow> read_property v ''message'')"

text \<open>
  The number that a value is multiplied as: \<^verbatim>\<open>undefined\<close> is \<^verbatim>\<open>NaN\<close>, \<^verbatim>\<open>null\<close>
  is 0, \<^verbatim>\<open>true\<close> is 1, a string is read by the runtime, and an array or an object
  is converted to a string first, which can throw.
\<close>

definition to_number :: "'url platform \<Rightarrow> JsonValue option \<Rightarrow> error + int option" where
  "to_number rt v =
     (case v of
        None \<Rightarrow> Inr None
      | Some JNull \<Rightarrow> Inr (Some 0)
      | Some (JBool b) \<Rightarrow> Inr (Some (if b then 1 else 0))
      | Some (JNum n) \<Rightarrow> Inr (Some n)
      | Some (JStr s) \<Rightarrow> Inr (StringToNumber rt s)
      | Some j \<Rightarrow>
          (case to_primitive j of
             Some s \<Rightarrow> Inr (StringToNumber rt s)
           | None \<Rightarrow> Inl cannot_convert))"

text \<open>
  The setter \<^verbatim>\<open>set token\<close>. It stores the token first and then computes the expiry,
  \<^verbatim>\<open>Date.now() + token.expires_in * 1000\<close>; when that throws, the token is stored
  and the old expiry is kept.
\<close>

definition set_token ::
  "'url platform \<Rightarrow> client \<Rightarrow> world \<Rightarrow> JsonValue \<Rightarrow> error option \<times> client" where
  "set_token rt c w t =
     (let c1 = c\<lparr>token := Some t\<rparr> in
      case read_property (Some t) ''expires_in'' of
        Inl e \<Rightarrow> (Some e, c1)
      | Inr v \<Rightarrow>
          (case to_number rt v of
             Inl e \<Rightarrow> (Some e, c1)
           | Inr n \<Rightarrow> (None, c1\<lparr>tokenExpiresOn := map_option (\<lambda>k. now w + k * 1000) n\<rparr>)))"

subsection \<open>buildUrl\<close>

definition truthy_search :: "EndpointSearchParams \<Rightarrow> bool" where
  "truthy_search sp = (case sp of SearchString s \<Rightarrow> s \<noteq> [] | _ \<Rightarrow> True)"

definition buildUrl ::
  "'url platform \<Rightarrow> client \<Rightarrow> string \<Rightarrow> EndpointSearchParams option \<Rightarrow> error + 'url" where
  "buildUrl rt c path searchParams =
     (case URL_new rt path (baseUrl c) of
        Inl e \<Rightarrow> Inl e
      | Inr u \<Rightarrow>
          (let search = (case searchParams of
                           Some (SearchJsonApiParams q) \<Rightarrow> Some (SearchRecord q)
                         | other \<Rightarrow> other)
           in case search of
                None \<Rightarrow> Inr u
              | Some sp \<Rightarrow>
                  if truthy_search sp then Inr (URL_set_search rt u (stringify rt sp))
                  else Inr u))"

subsection \<open>getErrorsFromResponse and throwIfJsonErrors\<close>

definition getErrorsFromResponse :: "Response \<Rightarrow> error + JsonValue" where
  "getErrorsFromResponse response =
     (let type = Headers_get (response_headers response) ''content-type'' in
      if type = Some ''application/json'' then
        (case json response of
           Inl e \<Rightarrow> Inl e
         | Inr error \<Rightarrow>
             if truthy_opt (opt_prop (Some error) ''message'')
             then (case opt_prop (Some error) ''message'' of
                     Some m \<Rightarrow> Inr m
                   | None \<Rightarrow> Inr (JStr (statusText response)))
             else Inr (JStr (statusText response)))
      else if type = Some ''application/vnd.api+json'' then
        (case json response of
           Inl e \<Rightarrow> Inl e
         | Inr error \<Rightarrow>
             if truthy_opt (opt_prop (opt_prop (Some error) ''errors'') ''length'')
             then (case opt_prop (Some error) ''errors'' of
                     Some es \<Rightarrow> Inr es
                   | None \<Rightarrow> Inr (JStr (statusText response)))
             else Inr (JStr (statusText response)))
      else Inr (JStr (statusText response)))"

definition throwIfJsonErrors :: "Response \<Rightarrow> string \<Rightarrow> error + unit" where
  "throwIfJsonErrors response messagePrefix =
     (if \<not> ok response then
        (case getErrorsFromResponse response of
           Inl e \<Rightarrow> Inl e
         | Inr errors \<Rightarrow> Inl (JsonApiErrors errors (status response) messagePrefix))
      else Inr ())"

subsection \<open>fetch, getAuthorizationHeader and getAccessToken\<close>

text \<open>
  \<^verbatim>\<open>FetchOptions\<close>: a \<^verbatim>\<open>RequestInit\<close> with the option \<^verbatim>\<open>withAuth\<close>, which is a
  boolean or an authentication configuration.
\<close>

datatype WithAuth = WithAuthBool bool | WithAuthConfig NextDrupalAuth

record FetchOptions = RequestInit +
  withAuth :: "WithAuth option"

definition truthy_withAuth :: "WithAuth option \<Rightarrow> bool" where
  "truthy_withAuth wa =
     (case wa of
        None \<Rightarrow> False
      | Some (WithAuthBool b) \<Rightarrow> b
      | Some (WithAuthConfig (AuthString s)) \<Rightarrow> s \<noteq> []
      | Some (WithAuthConfig _) \<Rightarrow> True)"

text \<open>\<^verbatim>\<open>withAuth === true ? this.auth : withAuth\<close>, for a truthy \<^verbatim>\<open>withAuth\<close>.\<close>

definition auth_for :: "client \<Rightarrow> WithAuth option \<Rightarrow> NextDrupalAuth option" where
  "auth_for c wa =
     (case wa of
        Some (WithAuthBool True) \<Rightarrow> auth c
      | Some (WithAuthConfig a) \<Rightarrow> Some a
      | _ \<Rightarrow> None)"

text \<open>
  The first statements of \<open>fetch\<close>: the copy of the headers of the instance, and
  the loop that sets the headers of the call over them. \<^verbatim>\<open>new Headers(init.headers)\<close>
  throws for a name or a value that is not valid.
\<close>

definition merge_headers :: "Headers \<Rightarrow> HeadersInit option \<Rightarrow> error + Headers" where
  "merge_headers instance init_headers =
     (let hs = Headers_copy instance in
      case init_headers of
        None \<Rightarrow> Inr hs
      | Some ih \<Rightarrow>
          (case Headers_new ih of
             Inl e \<Rightarrow> Inl e
           | Inr initHeaders \<Rightarrow>
               fold_sum (\<lambda>key acc. Headers_set acc key
                                     (case Headers_get initHeaders key of
                                        Some v \<Rightarrow> v | None \<Rightarrow> ''null''))
                 (Headers_keys initHeaders) hs))"

definition rewrite_input :: "client \<Rightarrow> RequestInfo \<Rightarrow> RequestInfo" where
  "rewrite_input c input =
     (case input of
        InputString s \<Rightarrow> if startsWith s ''/'' then InputString (baseUrl c @ s) else input
      | InputRequest r \<Rightarrow> input)"

text \<open>
  The three methods call each other: \<open>fetch\<close> asks \<open>getAuthorizationHeader\<close> when
  \<^verbatim>\<open>withAuth\<close> is truthy, \<open>getAuthorizationHeader\<close> asks \<open>getAccessToken\<close> for a
  client id and secret, and \<open>getAccessToken\<close> calls \<open>getAuthorizationHeader\<close> with
  a user name and password and \<open>fetch\<close> without \<^verbatim>\<open>withAuth\<close>.
\<close>

function
  getAuthorizationHeader ::
    "'url platform \<Rightarrow> client \<Rightarrow> world \<Rightarrow> NextDrupalAuth option \<Rightarrow>
       (error + string) \<times> client \<times> world"
and getAccessToken ::
    "'url platform \<Rightarrow> client \<Rightarrow> world \<Rightarrow> NextDrupalAuth option \<Rightarrow>
       (error + JsonValue) \<times> client \<times> world"
and fetch ::
    "'url platform \<Rightarrow> client \<Rightarrow> world \<Rightarrow> RequestInfo \<Rightarrow> FetchOptions \<Rightarrow>
       (error + Response) \<times> client \<times> world"
where
  "getAuthorizationHeader rt c w a =
     (if isBasicAuth a then
        (Inr (''Basic '' @ base64 (template (username (fields_of a)) @ '':'' @
                                    template (password (fields_of a)))), c, w)
      else if isClientIdSecretAuth a then
        (case getAccessToken rt c w a of
           (Inl e, c', w') \<Rightarrow> (Inl e, c', w')
         | (Inr tok, c', w') \<Rightarrow>
             (case read_property (Some tok) ''access_token'' of
                Inl e \<Rightarrow> (Inl e, c', w')
              | Inr v \<Rightarrow>
                  (case template_json v of
                     Inl e \<Rightarrow> (Inl e, c', w')
                   | Inr s \<Rightarrow> (Inr (''Bearer '' @ s), c', w'))))
      else if isAccessTokenAuth a then
        (Inr (template (token_type (fields_of a)) @ '' '' @
              template (access_token (fields_of a))), c, w)
      else
        (case a of
           Some (AuthString s) \<Rightarrow> (Inr s, c, w)
         | Some (AuthCallback f) \<Rightarrow> (f (), c, w)
         | _ \<Rightarrow> (Inl auth_not_configured, c, w)))"
| "getAccessToken rt c w clientIdSecret =
     (if truthy_opt (accessToken c) then (Inr (the (accessToken c)), c, w)
      else
          (case (if isClientIdSecretAuth clientIdSecret then
                   Inr ((fields_of clientIdSecret)
                          \<lparr>url := (case url (fields_of clientIdSecret) of
                                     Some u \<Rightarrow> Some u | None \<Rightarrow> Some DEFAULT_AUTH_URL)\<rparr>)
                 else if isClientIdSecretAuth (auth c) then Inr (fields_of (auth c))
                 else if auth c = None then Inl auth_not_configured
                 else Inl (Error ('''clientId' and 'clientSecret' required. '' @
                                  ''See https://next-drupal.org/docs/client/auth'')))
           of
             Inl e \<Rightarrow> (Inl e, c, w)
           | Inr auth' \<Rightarrow>
               (case buildUrl rt c (template (url auth')) None of
                  Inl e \<Rightarrow> (Inl e, c, w)
                | Inr u \<Rightarrow>
                    if truthy_opt (token c) \<and>
                       (case tokenExpiresOn c of Some t \<Rightarrow> now w < t | None \<Rightarrow> False) \<and>
                       clientId (fields_of (map_option AuthObject (tokenRequestDetails c)))
                         = clientId auth' \<and>
                       clientSecret (fields_of (map_option AuthObject (tokenRequestDetails c)))
                         = clientSecret auth' \<and>
                       scope (fields_of (map_option AuthObject (tokenRequestDetails c)))
                         = scope auth'
                    then (Inr (the (token c)), c, w)
                    else
                      (let clientCredentials =
                             no_fields\<lparr>username := clientId auth', password := clientSecret auth'\<rparr>;
                           body0 = [(''grant_type'', ''client_credentials'')];
                           body1 = (if truthy_string (scope auth')
                                    then body0 @ [(''scope'', template (scope auth'))]
                                    else body0)
                       in case getAuthorizationHeader rt c w (Some (AuthObject clientCredentials)) of
                            (Inl e, c1, w1) \<Rightarrow> (Inl e, c1, w1)
                          | (Inr h, c1, w1) \<Rightarrow>
                              (case fetch rt c1 w1 (InputString (URL_toString rt u))
                                      \<lparr>method' = Some ''POST'',
                                       headers = Some (HeadersPairs
                                         [(''Authorization'', h),
                                          (''Accept'', ''application/json''),
                                          (''Content-Type'', ''application/x-www-form-urlencoded'')]),
                                       body = Some (BodyParams body1),
                                       credentials = None,
                                       withAuth = None\<rparr>
                               of
                                 (Inl e, c2, w2) \<Rightarrow> (Inl e, c2, w2)
                               | (Inr response, c2, w2) \<Rightarrow>
                                   (case throwIfJsonErrors response
                                           ''Error while fetching new access token: '' of
                                      Inl e \<Rightarrow> (Inl e, c2, w2)
                                    | Inr _ \<Rightarrow>
                                        (case json response of
                                           Inl e \<Rightarrow> (Inl e, c2, w2)
                                         | Inr result \<Rightarrow>
                                             (case set_token rt c2 w2 result of
                                                (Some e, c3) \<Rightarrow> (Inl e, c3, w2)
                                              | (None, c3) \<Rightarrow>
                                                  (Inr result,
                                                   c3\<lparr>tokenRequestDetails := Some auth'\<rparr>,
                                                   w2)))))))))"
| "fetch rt c w input options =
     (let init0 = (RequestInit.truncate options)\<lparr>credentials := Some ''include''\<rparr> in
      case merge_headers (client_headers c) (headers init0) of
        Inl e \<Rightarrow> (Inl e, c, w)
      | Inr merged \<Rightarrow>
          (case (if truthy_withAuth (withAuth options) then
                   (case getAuthorizationHeader rt c w (auth_for c (withAuth options)) of
                      (Inl e, c1, w1) \<Rightarrow> (Inl e, c1, w1)
                    | (Inr h, c1, w1) \<Rightarrow>
                        (case Headers_set merged ''Authorization'' h of
                           Inl e \<Rightarrow> (Inl e, c1, w1)
                         | Inr hs \<Rightarrow> (Inr hs, c1, w1)))
                 else (Inr merged, c, w))
           of
             (Inl e, c1, w1) \<Rightarrow> (Inl e, c1, w1)
           | (Inr hs, c1, w1) \<Rightarrow>
               (let init1 = init0\<lparr>headers := Some (HeadersObject hs)\<rparr>;
                    request = \<lparr>request_input = rewrite_input c1 input, request_init = init1\<rparr>
                in case fetcher c1 of
                     Some f \<Rightarrow> (case call_transport f request w1 of (r, w2) \<Rightarrow> (r, c1, w2))
                   | None \<Rightarrow>
                       (case call_transport (global_fetch w1) request w1 of
                          (r, w2) \<Rightarrow> (r, c1, w2)))))"
  by pat_completeness auto

termination
  apply (relation "measure (\<lambda>x. case x of
            Inl (rt, c, w, a) \<Rightarrow> (if isBasicAuth a then 0 else 2)
          | Inr (Inl (rt, c, w, a)) \<Rightarrow> 1
          | Inr (Inr (rt, c, w, input, options)) \<Rightarrow>
              (if truthy_withAuth (withAuth options) then 3 else 0))")
    apply simp_all
  apply (auto simp: isBasicAuth_def isClientIdSecretAuth_def fields_of_def truthy_withAuth_def
              split: if_splits)
  done

declare getAuthorizationHeader.simps [simp del]
declare getAccessToken.simps [simp del]
declare fetch.simps [simp del]

subsection \<open>validateDraftUrl\<close>

text \<open>
  \<^verbatim>\<open>Object.fromEntries(searchParams.entries())\<close>: one property per name, a later
  entry replacing the value of an earlier one. In the \<^verbatim>\<open>catch\<close> block, the read of
  \<^verbatim>\<open>error.message\<close> can throw, and then the method throws; \<^verbatim>\<open>JSON.stringify\<close>
  leaves out a property whose value is \<^verbatim>\<open>undefined\<close>.
\<close>

fun json_set :: "string \<Rightarrow> JsonValue \<Rightarrow> (string \<times> JsonValue) list \<Rightarrow> (string \<times> JsonValue) list" where
  "json_set k v [] = [(k, v)]"
| "json_set k v (p # ps) = (if fst p = k then (k, v) # ps else p # json_set k v ps)"

definition Object_fromEntries :: "(string \<times> string) list \<Rightarrow> JsonValue" where
  "Object_fromEntries entries = JObj (fold (\<lambda>(k, v) acc. json_set k (JStr v) acc) entries [])"

definition validateDraftUrl ::
  "'url platform \<Rightarrow> client \<Rightarrow> world \<Rightarrow> (string \<times> string) list \<Rightarrow>
     (error + Response) \<times> client \<times> world" where
  "validateDraftUrl rt c w searchParams =
     (case (case buildUrl rt c ''/next/draft-url'' None of
              Inl e \<Rightarrow> (Inl e, c, w)
            | Inr u \<Rightarrow>
                fetch rt c w (InputString (URL_toString rt u))
                  \<lparr>method' = Some ''POST'',
                   headers = Some (HeadersPairs
                     [(''Accept'', ''application/vnd.api+json''),
                      (''Content-Type'', ''application/json'')]),
                   body = Some (BodyJson (Object_fromEntries searchParams)),
                   credentials = None,
                   withAuth = None\<rparr>)
      of
        (Inr response, c1, w1) \<Rightarrow> (Inr response, c1, w1)
      | (Inl error, c1, w1) \<Rightarrow>
          (case message rt error of
             Inl e \<Rightarrow> (Inl e, c1, w1)
           | Inr m \<Rightarrow>
               (Inr (Response_new_json
                       (JObj (case m of Some v \<Rightarrow> [(''message'', v)] | None \<Rightarrow> []))
                       401),
                c1, w1)))"

subsection \<open>constructPathFromSegment and addLocalePrefix\<close>

text \<open>The option \<^verbatim>\<open>locale\<close> is the field \<open>locale'\<close>.\<close>

record LocaleOptions =
  locale' :: "string option"
  defaultLocale :: "string option"

record PathOptions = LocaleOptions +
  pathPrefix :: "string option"

datatype Segment = SegmentString string | SegmentArray "string list"

definition addLocalePrefix :: "string \<Rightarrow> LocaleOptions \<Rightarrow> string" where
  "addLocalePrefix path options =
     (let path1 = (if \<not> startsWith path ''/'' then ''/'' @ path else path);
          localePrefix =
            (if truthy_string (locale' options) \<and>
                \<not> startsWith path1 (''/'' @ template (locale' options)) \<and>
                locale' options \<noteq> defaultLocale options
             then ''/'' @ template (locale' options) else [])
      in localePrefix @ path1)"

definition constructPathFromSegment :: "client \<Rightarrow> Segment \<Rightarrow> PathOptions \<Rightarrow> string" where
  "constructPathFromSegment c segment options =
     (let pathPrefix0 = (case pathPrefix options of Some p \<Rightarrow> p | None \<Rightarrow> []);
          pathPrefix1 =
            (if pathPrefix0 \<noteq> [] then
               (let p1 = (if \<not> startsWith pathPrefix0 ''/''
                          then ''/'' @ template (pathPrefix options) else pathPrefix0)
                in if endsWith p1 ''/'' then slice_0_minus1 p1 else p1)
             else pathPrefix0);
          parts = (case segment of
                     SegmentArray xs \<Rightarrow> xs
                   | SegmentString s \<Rightarrow> if s \<noteq> [] then [s] else []);
          segment1 = join (map encodeURIComponent parts) ''/'';
          segment2 = (if segment1 = [] \<and> pathPrefix1 = [] then frontPage c else segment1);
          segment3 = (if segment2 \<noteq> [] \<and> \<not> startsWith segment2 ''/''
                      then ''/'' @ segment2 else segment2);
          segment4 = (if endsWith segment3 ''/'' then slice_0_minus1 segment3 else segment3)
      in addLocalePrefix (pathPrefix1 @ segment4)
           \<lparr>locale' = locale' options, defaultLocale = defaultLocale options\<rparr>)"

subsection \<open>Parts of the methods, for the statements below\<close>

text \<open>The transport a call of \<open>fetch\<close> uses: \<^verbatim>\<open>this.fetcher\<close> when there is one.\<close>

definition transport_of :: "client \<Rightarrow> world \<Rightarrow> transport" where
  "transport_of c w = (case fetcher c of Some f \<Rightarrow> f | None \<Rightarrow> global_fetch w)"

text \<open>
  The header that \<open>getAuthorizationHeader\<close> makes of the token \<open>tok\<close> that
  \<open>getAccessToken\<close> returns: \<^verbatim>\<open>`Bearer ${tok.access_token}`\<close>.
\<close>

definition bearer_header :: "JsonValue \<Rightarrow> error + string" where
  "bearer_header tok =
     (case read_property (Some tok) ''access_token'' of
        Inl e \<Rightarrow> Inl e
      | Inr v \<Rightarrow> (case template_json v of Inl e \<Rightarrow> Inl e | Inr s \<Rightarrow> Inr (''Bearer '' @ s)))"

text \<open>
  The first statement of \<open>getAccessToken\<close>: the credentials of the request, from
  the argument or from the instance, or the error thrown.
\<close>

definition resolve_auth :: "client \<Rightarrow> NextDrupalAuth option \<Rightarrow> error + AuthFields" where
  "resolve_auth c clientIdSecret =
     (if isClientIdSecretAuth clientIdSecret then
        Inr ((fields_of clientIdSecret)
               \<lparr>url := (case url (fields_of clientIdSecret) of
                          Some u \<Rightarrow> Some u | None \<Rightarrow> Some DEFAULT_AUTH_URL)\<rparr>)
      else if isClientIdSecretAuth (auth c) then Inr (fields_of (auth c))
      else if auth c = None then Inl auth_not_configured
      else Inl (Error ('''clientId' and 'clientSecret' required. '' @
                       ''See https://next-drupal.org/docs/client/auth'')))"

text \<open>
  The request that \<open>getAccessToken\<close> sends for the credentials \<open>auth'\<close> and the
  token URL \<open>u\<close>, as \<open>fetch\<close> hands it to the transport: its headers are the copy
  of those of the instance, with the three headers of the call set over them.
\<close>

definition token_request :: "'url platform \<Rightarrow> client \<Rightarrow> AuthFields \<Rightarrow> 'url \<Rightarrow> Request" where
  "token_request rt c auth' u =
     \<lparr>request_input = rewrite_input c (InputString (URL_toString rt u)),
      request_init =
        \<lparr>method' = Some ''POST'',
         headers = Some (HeadersObject
           (alist_set ''content-type'' ''application/x-www-form-urlencoded''
             (alist_set ''accept'' ''application/json''
               (alist_set ''authorization''
                  (''Basic '' @ base64 (template (clientId auth') @ '':'' @
                                       template (clientSecret auth')))
                  (Headers_copy (client_headers c)))))),
         body = Some (BodyParams
           (if truthy_string (scope auth')
            then [(''grant_type'', ''client_credentials''), (''scope'', template (scope auth'))]
            else [(''grant_type'', ''client_credentials'')])),
         credentials = Some ''include''\<rparr>\<rparr>"

text \<open>
  The request that \<open>validateDraftUrl\<close> sends, for the URL \<open>u\<close> of the endpoint, as
  \<open>fetch\<close> hands it to the transport: its headers are the copy of those of the
  instance, with the two headers of the call set over them.
\<close>

definition draft_request ::
  "'url platform \<Rightarrow> client \<Rightarrow> 'url \<Rightarrow> (string \<times> string) list \<Rightarrow> Request" where
  "draft_request rt c u searchParams =
     \<lparr>request_input = rewrite_input c (InputString (URL_toString rt u)),
      request_init =
        \<lparr>method' = Some ''POST'',
         headers = Some (HeadersObject
           (alist_set ''content-type'' ''application/json''
             (alist_set ''accept'' ''application/vnd.api+json''
               (Headers_copy (client_headers c))))),
         body = Some (BodyJson (Object_fromEntries searchParams)),
         credentials = Some ''include''\<rparr>\<rparr>"

text \<open>
  The test of \<open>getAccessToken\<close> for using the token it has: a token is stored (a
  truthy value), the clock is before the stored expiry, and the stored client id,
  client secret and scope are those of the request.
\<close>

definition token_cached :: "client \<Rightarrow> world \<Rightarrow> AuthFields \<Rightarrow> bool" where
  "token_cached c w auth' \<longleftrightarrow>
     truthy_opt (token c) \<and>
     (\<exists>t. tokenExpiresOn c = Some t \<and> now w < t) \<and>
     (\<exists>d. tokenRequestDetails c = Some d \<and> clientId d = clientId auth' \<and>
          clientSecret d = clientSecret auth' \<and> scope d = scope auth')"

subsection \<open>A platform\<close>

text \<open>
  Modelled from the spec: the class \<^verbatim>\<open>URL\<close> of the runtime, which \<open>buildUrl\<close>
  calls and which is not part of the sources. Section 4.2 of the specification: the
  path may be absolute (returned as it is, ignoring the base) or relative (resolved
  against the configured base). An absolute URL starts with \<^verbatim>\<open>http://\<close> or
  \<^verbatim>\<open>https://\<close> and a host; what follows the host is the path, then the query from a
  question mark on, then the fragment from a hash sign on. The model does not
  normalise (no dot segments, no percent-encoding, no change of case).
\<close>

record URL =
  origin :: string
  pathname :: string
  search :: string
  hash :: string

text \<open>
  Modelled from the spec: the split of an absolute URL into its origin (scheme and
  host) and the rest, as the absent class \<^verbatim>\<open>URL\<close> reads it; \<^term>\<open>None\<close> for a
  string that is not an absolute URL.
\<close>

definition split_origin :: "string \<Rightarrow> (string \<times> string) option" where
  "split_origin s =
     (let scheme = (if prefix ''https://'' s then ''https://''
                    else if prefix ''http://'' s then ''http://'' else []);
          rest = drop (length scheme) s;
          host = takeWhile (\<lambda>ch. ch \<notin> set ''/?#'') rest
      in if scheme = [] \<or> host = [] then None
         else Some (scheme @ host, dropWhile (\<lambda>ch. ch \<notin> set ''/?#'') rest))"

text \<open>
  Modelled from the spec: the URL object (of the absent class \<^verbatim>\<open>URL\<close>) for an origin
  and the rest of the reference: path, query and fragment. An empty path is \<^verbatim>\<open>/\<close>.
\<close>

definition URL_of :: "string \<Rightarrow> string \<Rightarrow> URL" where
  "URL_of orig rest =
     (let p = takeWhile (\<lambda>ch. ch \<notin> set ''?#'') rest;
          r = dropWhile (\<lambda>ch. ch \<notin> set ''?#'') rest;
          q = takeWhile (\<lambda>ch. ch \<noteq> CHR ''#'') r;
          h = dropWhile (\<lambda>ch. ch \<noteq> CHR ''#'') r
      in \<lparr>origin = orig, pathname = (if p = [] then ''/'' else p),
          search = (if q = ''?'' then [] else q), hash = (if h = ''#'' then [] else h)\<rparr>)"

text \<open>
  Modelled from the spec: \<^verbatim>\<open>new URL(path, base)\<close>, absent from the sources. A relative
  path with a leading slash replaces the path of the base, another one is read in
  the directory of the base; a relative path needs a base that is absolute.
\<close>

definition spec_URL_new :: "string \<Rightarrow> string \<Rightarrow> error + URL" where
  "spec_URL_new path base =
     (case split_origin path of
        Some (orig, rest) \<Rightarrow> Inr (URL_of orig rest)
      | None \<Rightarrow>
          (case split_origin base of
             None \<Rightarrow> Inl (PlatformError ''Invalid URL'')
           | Some (orig, rest) \<Rightarrow>
               if prefix ''/'' path then Inr (URL_of orig path)
               else Inr (URL_of orig
                      (rev (dropWhile (\<lambda>ch. ch \<noteq> CHR ''/'') (rev (pathname (URL_of orig rest))))
                       @ path))))"

text \<open>
  Modelled from the spec: the assignment to \<^verbatim>\<open>url.search\<close> and \<^verbatim>\<open>url.toString()\<close>,
  absent from the sources. The query is kept with its question mark; an empty string
  removes it.
\<close>

definition spec_URL_set_search :: "URL \<Rightarrow> string \<Rightarrow> URL" where
  "spec_URL_set_search u s =
     u\<lparr>search := (if s = [] then [] else if prefix ''?'' s then s else ''?'' @ s)\<rparr>"

definition spec_URL_toString :: "URL \<Rightarrow> string" where
  "spec_URL_toString u = origin u @ pathname u @ search u @ hash u"

text \<open>
  Modelled from the spec: \<^verbatim>\<open>stringify\<close> of the package \<^verbatim>\<open>qs\<close>, which \<open>buildUrl\<close>
  calls and which is not part of the sources. Section 4.2 of the specification: nested
  and array values are serialised with bracket notation, not flattened into repeated
  pairs; section 8: the key \<^verbatim>\<open>fields[node--article]\<close> with the value
  \<^verbatim>\<open>title,path\<close> gives \<^verbatim>\<open>fields%5Bnode--article%5D=title%2Cpath\<close>. So every key
  and every value is percent-encoded but for letters, digits and \<^verbatim>\<open>- . _ ~\<close>; the
  entry \<open>i\<close> of an array under the key \<open>k\<close> has the key \<^verbatim>\<open>k[i]\<close> (the index
  in decimal) and the
  property \<open>p\<close> of an object under \<open>k\<close> the key \<^verbatim>\<open>k[p]\<close>; the pairs are joined by
  \<^verbatim>\<open>&\<close>. A value that is not a record has no pairs.
\<close>

text \<open>
  Modelled from the spec: the characters that the absent \<^verbatim>\<open>qs\<close> leaves as they are,
  and its encoding of a key or a value.
\<close>

definition qs_unreserved :: "char \<Rightarrow> bool" where
  "qs_unreserved ch \<longleftrightarrow>
     ch \<in> set (''ABCDEFGHIJKLMNOPQRSTUVWXYZ'' @ ''abcdefghijklmnopqrstuvwxyz'' @
               ''0123456789'' @ ''-._~'')"

definition qs_encode :: "string \<Rightarrow> string" where
  "qs_encode s = concat (map (\<lambda>ch. if qs_unreserved ch then [ch] else percent_encode ch) s)"

text \<open>
  Modelled from the spec: the pairs that the absent \<^verbatim>\<open>qs\<close> writes for one key and
  its value, in bracket notation.
\<close>

function (sequential) qs_entries :: "string \<Rightarrow> QsValue \<Rightarrow> string list" where
  "qs_entries key (QsString s) = [qs_encode key @ ''='' @ qs_encode s]"
| "qs_entries key (QsArray vs) =
     concat (map (\<lambda>(i, v). qs_entries (key @ ''['' @ decimal i @ '']'') v)
               (zip [0..<length vs] vs))"
| "qs_entries key (QsObject fs) =
     concat (map (\<lambda>(k, v). qs_entries (key @ ''['' @ k @ '']'') v) fs)"
  by pat_completeness auto

termination
proof (relation "measure (\<lambda>(key, v). size v)")
  show "wf (measure (\<lambda>(key, v). size v))" by simp
next
  fix key :: string and vs :: "QsValue list" and x :: "nat \<times> QsValue" and i v
  assume "x \<in> set (zip [0..<length vs] vs)" "(i, v) = x"
  then have "v \<in> set vs" by (auto dest: set_zip_rightD)
  then have "size v \<le> size_list size vs" by (rule size_list_estimation') simp
  then show "((key @ ''['' @ decimal i @ '']'', v), (key, QsArray vs))
               \<in> measure (\<lambda>(key, v). size v)"
    by simp
next
  fix key :: string and fs :: "(string \<times> QsValue) list" and x :: "string \<times> QsValue" and k v
  assume "x \<in> set fs" "(k, v) = x"
  then have "(k, v) \<in> set fs" by simp
  then have "size_prod (\<lambda>_. 0) size (k, v) \<le> size_list (size_prod (\<lambda>_. 0) size) fs"
    by (rule size_list_estimation') simp
  then show "((key @ ''['' @ k @ '']'', v), (key, QsObject fs))
               \<in> measure (\<lambda>(key, v). size v)"
    by simp
qed

text \<open>
  Modelled from the spec: \<^verbatim>\<open>stringify\<close> of the absent \<^verbatim>\<open>qs\<close>, on the value that
  \<open>buildUrl\<close> passes to it.
\<close>

definition qs_stringify :: "EndpointSearchParams \<Rightarrow> string" where
  "qs_stringify sp =
     (case sp of
        SearchRecord fs \<Rightarrow> join (concat (map (\<lambda>(k, v). qs_entries k v) fs)) ''&''
      | _ \<Rightarrow> [])"

text \<open>
  Modelled from the spec: the message of a \<^verbatim>\<open>JsonApiErrors\<close>, a class absent from
  the sources. Section 4.4 of the specification says what the error carries (detail,
  status, prefix) and not how its message reads; the model takes the prefix, followed
  by the detail when that is a string.
\<close>

definition spec_JsonApiErrors_message :: "JsonValue \<Rightarrow> nat \<Rightarrow> string \<Rightarrow> string" where
  "spec_JsonApiErrors_message errors st pre =
     pre @ (case errors of JStr s \<Rightarrow> s | _ \<Rightarrow> [])"

text \<open>
  The strings that the platform of the examples reads as a number: the empty string
  (as 0) and a decimal integer with an optional sign. Every other string is \<^verbatim>\<open>NaN\<close>
  here; a runtime also reads fractions, exponents, other bases and the white space
  around a number.
\<close>

definition digit_value :: "char \<Rightarrow> nat" where
  "digit_value ch = (of_char ch :: nat) - 48"

definition decimal_digits :: "string \<Rightarrow> bool" where
  "decimal_digits s \<longleftrightarrow> s \<noteq> [] \<and> list_all (\<lambda>ch. ch \<in> set ''0123456789'') s"

definition digits_value :: "string \<Rightarrow> int" where
  "digits_value s = int (fold (\<lambda>ch n. 10 * n + digit_value ch) s 0)"

definition integer_StringToNumber :: "string \<Rightarrow> int option" where
  "integer_StringToNumber s =
     (if s = [] then Some 0
      else if decimal_digits s then Some (digits_value s)
      else if hd s = CHR ''-'' \<and> decimal_digits (tl s) then Some (- digits_value (tl s))
      else if hd s = CHR ''+'' \<and> decimal_digits (tl s) then Some (digits_value (tl s))
      else None)"

text \<open>
  Modelled from the spec: the platform made of these models of the absent \<^verbatim>\<open>URL\<close>,
  \<^verbatim>\<open>qs\<close> and \<^verbatim>\<open>JsonApiErrors\<close>, and of the numbers above.
\<close>

definition runtime :: "URL platform" where
  "runtime =
     \<lparr>URL_new = spec_URL_new, URL_set_search = spec_URL_set_search,
      URL_toString = spec_URL_toString, stringify = qs_stringify,
      JsonApiErrors_message = spec_JsonApiErrors_message,
      StringToNumber = integer_StringToNumber\<rparr>"

subsection \<open>Example instances\<close>

text \<open>The client \<^verbatim>\<open>new NextDrupalBase("https://example.com")\<close>.\<close>

definition example_client :: client where
  "example_client =
     \<lparr>accessToken = None, baseUrl = ''https://example.com'', fetcher = None,
      frontPage = ''/home'', client_withAuth = False, apiPrefix = [], auth = None,
      client_headers = [(''content-type'', ''application/json''), (''accept'', ''application/json'')],
      token = None, tokenExpiresOn = None, tokenRequestDetails = None\<rparr>"


text \<open>
  A world at time 1000 in which nothing has been sent, and whose global \<^verbatim>\<open>fetch\<close>
  answers every request after 5 milliseconds with status 200 and a token that is
  valid for 300 seconds.
\<close>

definition token_response :: Response where
  "token_response =
     \<lparr>ok = True, status = 200, statusText = ''OK'',
      response_headers = [(''content-type'', ''application/json'')],
      json = Inr (JObj [(''access_token'', JStr ''abc''), (''token_type'', JStr ''Bearer''),
                        (''expires_in'', JNum 300)])\<rparr>"

definition example_world :: world where
  "example_world =
     \<lparr>now = 1000, sent = [], global_fetch = (\<lambda>request t. (Inr token_response, t + 5))\<rparr>"

text \<open>
  A response with status 422 and JSON:API errors, and a response with status 502
  whose body does not parse.
\<close>

definition response_422 :: Response where
  "response_422 =
     \<lparr>ok = False, status = 422, statusText = ''Unprocessable Entity'',
      response_headers = [(''content-type'', ''application/vnd.api+json'')],
      json = Inr (JObj [(''errors'', JArr [JObj [(''title'', JStr ''Invalid'')]])])\<rparr>"

definition response_unparsable :: Response where
  "response_unparsable =
     \<lparr>ok = False, status = 502, statusText = ''Bad Gateway'',
      response_headers = [(''content-type'', ''application/json'')],
      json = Inl (PlatformError ''Unexpected end of JSON input'')\<rparr>"


text \<open>
  Credentials of a client, a token, and the example client after it has stored this
  token for these credentials, valid up to time 301000.
\<close>

definition id_secret :: AuthFields where
  "id_secret = no_fields\<lparr>clientId := Some ''id'', clientSecret := Some ''secret''\<rparr>"

definition cached_token :: JsonValue where
  "cached_token =
     JObj [(''access_token'', JStr ''cached''), (''token_type'', JStr ''Bearer''),
           (''expires_in'', JNum 300)]"

definition cached_client :: client where
  "cached_client =
     example_client\<lparr>token := Some cached_token, tokenExpiresOn := Some 301000,
                    tokenRequestDetails := Some (id_secret\<lparr>url := Some ''/oauth/token''\<rparr>)\<rparr>"

text \<open>
  A world whose transport answers every request with status 401, one whose
  transport answers with status 502 and a body that does not parse, and one whose
  transport throws an error.
\<close>

definition response_401 :: Response where
  "response_401 =
     \<lparr>ok = False, status = 401, statusText = ''Unauthorized'',
      response_headers = [(''content-type'', ''application/json'')],
      json = Inr (JObj [(''message'', JStr ''The client credentials are invalid'')])\<rparr>"

definition refusing_world :: world where
  "refusing_world =
     \<lparr>now = 1000, sent = [], global_fetch = (\<lambda>request t. (Inr response_401, t + 5))\<rparr>"

definition unparsable_world :: world where
  "unparsable_world =
     \<lparr>now = 1000, sent = [], global_fetch = (\<lambda>request t. (Inr response_unparsable, t + 5))\<rparr>"

definition failing_world :: world where
  "failing_world =
     \<lparr>now = 1000, sent = [],
      global_fetch = (\<lambda>request t. (Inl (PlatformError ''fetch failed''), t + 5))\<rparr>"

text \<open>
  The example client with a \<^verbatim>\<open>fetcher\<close> that gives up after 5 milliseconds, as
  \<^verbatim>\<open>() => new Promise((resolve, reject) => setTimeout(reject, 5))\<close> does: the
  promise is rejected with \<^verbatim>\<open>undefined\<close>.
\<close>

definition rejecting_client :: client where
  "rejecting_client =
     example_client\<lparr>fetcher := Some (\<lambda>request t. (Inl (Thrown None), t + 5))\<rparr>"

text \<open>The URL objects of the token endpoint and of the draft validation endpoint.\<close>

definition token_url :: URL where
  "token_url = \<lparr>origin = ''https://example.com'', pathname = ''/oauth/token'',
                 search = [], hash = []\<rparr>"

definition draft_url :: URL where
  "draft_url = \<lparr>origin = ''https://example.com'', pathname = ''/next/draft-url'',
                 search = [], hash = []\<rparr>"


text \<open>
  The example client with the credentials \<open>id_secret\<close> configured, and the client
  \<^verbatim>\<open>new NextDrupalBase("example.com", {auth: {clientId: "id", clientSecret: "secret"}})\<close>,
  whose base URL has no scheme.
\<close>

definition credentials_client :: client where
  "credentials_client =
     example_client\<lparr>auth := Some (AuthObject (id_secret\<lparr>url := Some ''/oauth/token''\<rparr>))\<rparr>"

definition schemeless_client :: client where
  "schemeless_client = credentials_client\<lparr>baseUrl := ''example.com''\<rparr>"



section \<open>Properties\<close>

lemma Headers_new_DEFAULT_HEADERS:
  "Headers_new DEFAULT_HEADERS =
     Inr [(''content-type'', ''application/json''), (''accept'', ''application/json'')]"
  by code_simp

lemma example_client_constructed:
  "NextDrupalBase_new ''https://example.com'' no_options = Inr example_client"
  by (simp add: NextDrupalBase_new_def no_options_def set_apiPrefix_def set_auth_def
      set_headers_def example_client_def DEFAULT_API_PREFIX_def DEFAULT_FRONT_PAGE_def
      Headers_new_DEFAULT_HEADERS DEFAULT_WITH_AUTH_def)

subsection \<open>Slashes of a constructed path\<close>

lemma prefix_slash_hd: "prefix ''/'' s \<longleftrightarrow> s \<noteq> [] \<and> hd s = CHR ''/''"
  by (cases s) auto

lemma suffix_slash_last: "suffix ''/'' s \<longleftrightarrow> s \<noteq> [] \<and> last s = CHR ''/''"
  by (cases s rule: rev_cases) (auto simp: suffix_to_prefix)

lemma prefix_slash2D: "prefix ''//'' s \<Longrightarrow> prefix ''/'' s"
  by (cases s) auto

lemma suffix_slash2D: "suffix ''//'' s \<Longrightarrow> suffix ''/'' s"
  by (cases s rule: rev_cases) (auto simp: suffix_to_prefix)

text \<open>
  Adding a missing leading slash and dropping one trailing slash gives the empty
  string or a string with one leading and no trailing slash, for a string that
  neither begins nor ends with two slashes.
\<close>

lemma normalize_slashes:
  assumes "\<not> prefix ''//'' x" "\<not> suffix ''//'' x"
  defines "y \<equiv> (if x \<noteq> [] \<and> \<not> prefix ''/'' x then ''/'' @ x else x)"
  defines "z \<equiv> (if suffix ''/'' y then butlast y else y)"
  shows "(z = [] \<and> (x = [] \<or> x = ''/'')) \<or>
         (prefix ''/'' z \<and> \<not> prefix ''//'' z \<and> \<not> suffix ''/'' z)"
proof (cases x rule: rev_cases)
  case Nil
  then show ?thesis by (simp add: y_def z_def)
next
  case (snoc xs a)
  show ?thesis
  proof (cases xs)
    case Nil
    with snoc show ?thesis
      by (auto simp: y_def z_def suffix_to_prefix)
  next
    case (Cons b bs)
    show ?thesis
    proof (cases bs rule: rev_cases)
      case Nil
      with Cons snoc assms(1,2) show ?thesis
        by (auto simp: y_def z_def suffix_to_prefix)
    next
      case (snoc cs d)
      with Cons \<open>x = xs @ [a]\<close> assms(1,2) show ?thesis
        by (auto simp: y_def z_def suffix_to_prefix butlast_append)
    qed
  qed
qed

lemma hex_digit_not_slash: "hex_digit n \<noteq> CHR ''/''"
proof -
  have "''0123456789ABCDEF'' ! (n mod 16) \<in> set ''0123456789ABCDEF''"
    by (rule nth_mem) simp
  then show ?thesis
    unfolding hex_digit_def by auto
qed

lemma slash_reserved: "\<not> uri_unreserved (CHR ''/'')"
  by (simp add: uri_unreserved_def)

lemma encodeURIComponent_no_slash: "CHR ''/'' \<notin> set (encodeURIComponent s)"
proof -
  have "CHR ''/'' \<notin> set (if uri_unreserved ch then [ch] else percent_encode ch)" for ch
    using slash_reserved hex_digit_not_slash [THEN not_sym]
    by (auto simp: percent_encode_def)
  then show ?thesis
    by (induction s) (simp_all add: encodeURIComponent_def split del: if_split)
qed

lemma encodeURIComponent_Nil_iff: "encodeURIComponent s = [] \<longleftrightarrow> s = []"
  by (cases s) (auto simp: encodeURIComponent_def percent_encode_def)

lemma join_slash_ends:
  assumes "\<forall>p\<in>set ps. p \<noteq> [] \<and> CHR ''/'' \<notin> set p" and "ps \<noteq> []"
  shows "join ps ''/'' \<noteq> [] \<and> hd (join ps ''/'') \<noteq> CHR ''/'' \<and> last (join ps ''/'') \<noteq> CHR ''/''"
  using assms
proof (induction ps "''/''" rule: join.induct)
  case 1
  then show ?case by simp
next
  case (2 x)
  then have "x \<noteq> []" "CHR ''/'' \<notin> set x" by simp_all
  then show ?case
    by (metis hd_in_set last_in_set join.simps(2))
next
  case (3 x y ys)
  then have "x \<noteq> []" "CHR ''/'' \<notin> set x" by simp_all
  then have "hd x \<noteq> CHR ''/''" by (metis hd_in_set)
  with 3 \<open>x \<noteq> []\<close> show ?case
    by (auto simp: hd_append)
qed

lemma addLocalePrefix_clean:
  assumes "prefix ''/'' p" "\<not> prefix ''//'' p" "\<not> suffix ''/'' p"
    and "\<not> startsWith (template (locale' lo)) ''/''"
  shows "startsWith (addLocalePrefix p lo) ''/'' \<and>
         \<not> startsWith (addLocalePrefix p lo) ''//'' \<and>
         \<not> endsWith (addLocalePrefix p lo) ''/''"
proof (cases "truthy_string (locale' lo) \<and> \<not> startsWith p (''/'' @ template (locale' lo)) \<and>
              locale' lo \<noteq> defaultLocale lo")
  case True
  then obtain l where l: "locale' lo = Some l" "l \<noteq> []"
    by (auto simp: truthy_string_def split: option.splits)
  with assms(4) have hd_l: "hd l \<noteq> CHR ''/''"
    by (simp add: startsWith_def template_def prefix_slash_hd)
  from assms(1,3) have p: "p \<noteq> []" "last p \<noteq> CHR ''/''"
    by (auto simp: prefix_slash_hd suffix_slash_last)
  have "addLocalePrefix p lo = ''/'' @ l @ p"
    using True l assms(1) by (simp add: addLocalePrefix_def startsWith_def template_def)
  with l hd_l p show ?thesis
    by (cases l) (auto simp: startsWith_def endsWith_def suffix_slash_last)
next
  case False
  then have "addLocalePrefix p lo = p"
    using assms(1) by (auto simp: addLocalePrefix_def startsWith_def Let_def)
  with assms(1-3) show ?thesis
    by (simp add: startsWith_def endsWith_def)
qed

lemma addLocalePrefix_Nil:
  assumes "\<not> truthy_string (locale' lo) \<or> locale' lo = defaultLocale lo"
  shows "addLocalePrefix [] lo = ''/''"
  using assms by (auto simp: addLocalePrefix_def startsWith_def)

text \<open>
  Where the slashes come out right. The path returned by \<open>constructPathFromSegment\<close>
  is exactly \<^verbatim>\<open>/\<close>, or has exactly one leading slash and no trailing slash, at
  least when
  \<^item> the segment is a string or a list of non-empty strings,
  \<^item> \<^verbatim>\<open>pathPrefix\<close> neither begins nor ends with two slashes,
  \<^item> the configured front page neither begins nor ends with two slashes, and is not
    the empty string or \<^verbatim>\<open>/\<close> when a locale other than the default one is given,
  \<^item> the locale does not begin with a slash.
\<close>

lemma constructPathFromSegment_slashes:
  assumes parts: "case segment of SegmentArray xs \<Rightarrow> [] \<notin> set xs | SegmentString s \<Rightarrow> True"
    and pre: "\<not> startsWith (case pathPrefix options of Some p \<Rightarrow> p | None \<Rightarrow> []) ''//''"
             "\<not> endsWith (case pathPrefix options of Some p \<Rightarrow> p | None \<Rightarrow> []) ''//''"
    and front: "\<not> startsWith (frontPage c) ''//''" "\<not> endsWith (frontPage c) ''//''"
    and home: "frontPage c = [] \<or> frontPage c = ''/'' \<Longrightarrow>
               \<not> truthy_string (locale' options) \<or> locale' options = defaultLocale options"
    and loc': "case locale' options of Some l \<Rightarrow> \<not> startsWith l ''/'' | None \<Rightarrow> True"
  shows "constructPathFromSegment c segment options = ''/'' \<or>
         (startsWith (constructPathFromSegment c segment options) ''/'' \<and>
          \<not> startsWith (constructPathFromSegment c segment options) ''//'' \<and>
          \<not> endsWith (constructPathFromSegment c segment options) ''/'')"
proof -
  define pp0 where "pp0 = (case pathPrefix options of Some p \<Rightarrow> p | None \<Rightarrow> [])"
  define pp where "pp = (if pp0 \<noteq> [] then
               (let p1 = (if \<not> startsWith pp0 ''/''
                          then ''/'' @ template (pathPrefix options) else pp0)
                in if endsWith p1 ''/'' then slice_0_minus1 p1 else p1)
             else pp0)"
  define ps where "ps = (case segment of SegmentArray xs \<Rightarrow> xs
                   | SegmentString s \<Rightarrow> if s \<noteq> [] then [s] else [])"
  define seg1 where "seg1 = join (map encodeURIComponent ps) ''/''"
  define seg2 where "seg2 = (if seg1 = [] \<and> pp = [] then frontPage c else seg1)"
  define seg3 where "seg3 = (if seg2 \<noteq> [] \<and> \<not> startsWith seg2 ''/'' then ''/'' @ seg2 else seg2)"
  define seg4 where "seg4 = (if endsWith seg3 ''/'' then slice_0_minus1 seg3 else seg3)"
  define lo where "lo = \<lparr>locale' = locale' options, defaultLocale = defaultLocale options\<rparr>"
  have loc: "\<not> startsWith (template (locale' options)) ''/''"
    using loc' by (auto simp: template_def startsWith_def split: option.splits)
  have result: "constructPathFromSegment c segment options = addLocalePrefix (pp @ seg4) lo"
    by (simp add: constructPathFromSegment_def Let_def pp0_def pp_def ps_def seg1_def seg2_def
        seg3_def seg4_def lo_def)
  have tmpl: "pp0 \<noteq> [] \<Longrightarrow> template (pathPrefix options) = pp0"
    by (auto simp: pp0_def template_def split: option.splits)
  have pp_eq: "pp = (if suffix ''/'' (if pp0 \<noteq> [] \<and> \<not> prefix ''/'' pp0 then ''/'' @ pp0 else pp0)
                     then butlast (if pp0 \<noteq> [] \<and> \<not> prefix ''/'' pp0 then ''/'' @ pp0 else pp0)
                     else (if pp0 \<noteq> [] \<and> \<not> prefix ''/'' pp0 then ''/'' @ pp0 else pp0))"
    using tmpl by (auto simp: pp_def Let_def startsWith_def endsWith_def slice_0_minus1_def)
  have pp_shape: "pp = [] \<or> (prefix ''/'' pp \<and> \<not> prefix ''//'' pp \<and> \<not> suffix ''/'' pp)"
    using normalize_slashes [of pp0] pre unfolding pp_eq pp0_def startsWith_def endsWith_def
    by blast
  have ps_ok: "\<forall>p\<in>set (map encodeURIComponent ps). p \<noteq> [] \<and> CHR ''/'' \<notin> set p"
    using parts
    by (auto simp: ps_def encodeURIComponent_no_slash encodeURIComponent_Nil_iff
        split: Segment.splits if_splits)
  have seg1_shape: "seg1 = [] \<and> ps = [] \<or>
      (seg1 \<noteq> [] \<and> hd seg1 \<noteq> CHR ''/'' \<and> last seg1 \<noteq> CHR ''/'')"
  proof (cases "ps = []")
    case True
    then show ?thesis by (simp add: seg1_def)
  next
    case False
    then show ?thesis
      using join_slash_ends [OF ps_ok] by (simp add: seg1_def)
  qed
  have seg4_eq: "seg4 = (if suffix ''/'' (if seg2 \<noteq> [] \<and> \<not> prefix ''/'' seg2 then ''/'' @ seg2 else seg2)
                     then butlast (if seg2 \<noteq> [] \<and> \<not> prefix ''/'' seg2 then ''/'' @ seg2 else seg2)
                     else (if seg2 \<noteq> [] \<and> \<not> prefix ''/'' seg2 then ''/'' @ seg2 else seg2))"
    by (simp add: seg4_def seg3_def startsWith_def endsWith_def slice_0_minus1_def)
  have seg2_ok: "\<not> prefix ''//'' seg2 \<and> \<not> suffix ''//'' seg2"
  proof (cases "seg1 = [] \<and> pp = []")
    case True
    then show ?thesis
      using front by (simp add: seg2_def startsWith_def endsWith_def)
  next
    case False
    then have "seg2 = seg1" by (auto simp: seg2_def)
    then show ?thesis
      using seg1_shape prefix_slash2D [of seg1] suffix_slash2D [of seg1]
      by (auto simp: prefix_slash_hd suffix_slash_last)
  qed
  have seg4_shape: "(seg4 = [] \<and> (seg2 = [] \<or> seg2 = ''/'')) \<or>
         (prefix ''/'' seg4 \<and> \<not> prefix ''//'' seg4 \<and> \<not> suffix ''/'' seg4)"
    using normalize_slashes [of seg2] seg2_ok unfolding seg4_eq by blast
  show ?thesis
  proof (cases "pp @ seg4 = []")
    case True
    then have e: "pp = []" "seg4 = []" by simp_all
    with seg4_shape have s2: "seg2 = [] \<or> seg2 = ''/''"
      by auto
    have "seg1 = []"
    proof (rule ccontr)
      assume n: "seg1 \<noteq> []"
      then have "seg2 = seg1" by (simp add: seg2_def)
      with s2 n seg1_shape show False by auto
    qed
    with e have "seg2 = frontPage c" by (simp add: seg2_def)
    with s2 home have "\<not> truthy_string (locale' lo) \<or> locale' lo = defaultLocale lo"
      by (auto simp: lo_def)
    then show ?thesis
      using True by (simp add: result addLocalePrefix_Nil)
  next
    case False
    have "prefix ''/'' (pp @ seg4) \<and> \<not> prefix ''//'' (pp @ seg4) \<and> \<not> suffix ''/'' (pp @ seg4)"
      using False pp_shape seg4_shape
      by (cases pp; cases "tl pp"; cases seg4)
         (auto simp: suffix_slash_last prefix_slash_hd)
    moreover have "\<not> startsWith (template (locale' lo)) ''/''"
      using loc by (simp add: lo_def)
    ultimately show ?thesis
      unfolding result using addLocalePrefix_clean [of "pp @ seg4" lo] by blast
  qed
qed

text \<open>
  This lemma at \<^verbatim>\<open>constructPathFromSegment("about", {locale: "fr", defaultLocale: "en"})\<close>
  on the example client, where the path is \<^verbatim>\<open>/fr/about\<close>, and at an empty segment
  for the default locale on a client whose front page is \<^verbatim>\<open>/\<close>, where the path is
  \<^verbatim>\<open>/\<close>.
\<close>

lemma constructPathFromSegment_slashes_example:
  "constructPathFromSegment example_client (SegmentString ''about'')
     \<lparr>locale' = Some ''fr'', defaultLocale = Some ''en'', pathPrefix = None\<rparr> = ''/fr/about'' \<and>
   startsWith ''/fr/about'' ''/'' \<and> \<not> startsWith ''/fr/about'' ''//'' \<and>
   \<not> endsWith ''/fr/about'' ''/'' \<and>
   constructPathFromSegment (example_client\<lparr>frontPage := ''/''\<rparr>) (SegmentArray [])
     \<lparr>locale' = Some ''en'', defaultLocale = Some ''en'', pathPrefix = None\<rparr> = ''/''"
proof -
  have v: "constructPathFromSegment example_client (SegmentString ''about'')
     \<lparr>locale' = Some ''fr'', defaultLocale = Some ''en'', pathPrefix = None\<rparr> = ''/fr/about''"
    by code_simp
  have about: "startsWith ''/fr/about'' ''/'' \<and> \<not> startsWith ''/fr/about'' ''//'' \<and>
      \<not> endsWith ''/fr/about'' ''/''"
    using constructPathFromSegment_slashes [of "SegmentString ''about''"
        "\<lparr>locale' = Some ''fr'', defaultLocale = Some ''en'', pathPrefix = None\<rparr>" example_client]
    unfolding v
    by (simp add: startsWith_def endsWith_def example_client_def truthy_string_def
        suffix_to_prefix)
  have e: "\<not> endsWith (constructPathFromSegment (example_client\<lparr>frontPage := ''/''\<rparr>)
        (SegmentArray [])
        \<lparr>locale' = Some ''en'', defaultLocale = Some ''en'', pathPrefix = None\<rparr>) ''/'' \<longleftrightarrow> False"
    by code_simp
  have home: "constructPathFromSegment (example_client\<lparr>frontPage := ''/''\<rparr>) (SegmentArray [])
     \<lparr>locale' = Some ''en'', defaultLocale = Some ''en'', pathPrefix = None\<rparr> = ''/''"
    using constructPathFromSegment_slashes [of "SegmentArray []"
        "\<lparr>locale' = Some ''en'', defaultLocale = Some ''en'', pathPrefix = None\<rparr>"
        "example_client\<lparr>frontPage := ''/''\<rparr>"] e
    by (simp add: startsWith_def endsWith_def suffix_to_prefix)
  from v about home show ?thesis by simp
qed

text \<open>
  Claim C6 says that the returned path has exactly one leading slash and no trailing
  slash, for every segment and every \<^verbatim>\<open>pathPrefix\<close>. The code says so too, in its
  comments (\<^verbatim>\<open>Ensure the segment starts with a "/" and does not end with a "/"\<close>,
  \<^verbatim>\<open>Ensure pathPrefix starts with a "/" and does not end with a "/"\<close>), and then
  removes one slash where there can be more. On the example client, the segments
  \<^verbatim>\<open>["a", "", ""]\<close> give the path \<^verbatim>\<open>/a/\<close>, which ends with a slash, and the
  segment \<^verbatim>\<open>about\<close> under the \<^verbatim>\<open>pathPrefix\<close> \<^verbatim>\<open>//\<close> gives \<^verbatim>\<open>//about\<close>, which
  begins with two.
\<close>

theorem constructPathFromSegment_trailing_slash:
  "constructPathFromSegment example_client (SegmentArray [''a'', [], []])
     \<lparr>locale' = None, defaultLocale = None, pathPrefix = None\<rparr> = ''/a/'' \<and>
   endsWith ''/a/'' ''/'' \<and> ''/a/'' \<noteq> ''/'' \<and>
   constructPathFromSegment example_client (SegmentString ''about'')
     \<lparr>locale' = None, defaultLocale = None, pathPrefix = Some ''//''\<rparr> = ''//about'' \<and>
   startsWith ''//about'' ''//''"
proof -
  have "constructPathFromSegment example_client (SegmentArray [''a'', [], []])
     \<lparr>locale' = None, defaultLocale = None, pathPrefix = None\<rparr> = ''/a/''"
    by code_simp
  moreover have "constructPathFromSegment example_client (SegmentString ''about'')
     \<lparr>locale' = None, defaultLocale = None, pathPrefix = Some ''//''\<rparr> = ''//about''"
    by code_simp
  ultimately show ?thesis
    by (simp add: endsWith_def startsWith_def suffix_to_prefix)
qed

subsection \<open>The locale prefix\<close>

text \<open>
  Claim C7 says that the path \<^verbatim>\<open>/enchanted\<close> with locale \<^verbatim>\<open>en\<close> receives the prefix
  \<^verbatim>\<open>/en\<close>. The code tests \<^verbatim>\<open>path.startsWith("/en")\<close>, which holds for this path,
  and returns it without a prefix.
\<close>

theorem addLocalePrefix_enchanted:
  "addLocalePrefix ''/enchanted'' \<lparr>locale' = Some ''en'', defaultLocale = Some ''fr''\<rparr>
     = ''/enchanted''"
  by (simp add: addLocalePrefix_def startsWith_def truthy_string_def template_def)

subsection \<open>Errors of a response\<close>

lemma content_type_lower [simp]: "lower ''content-type'' = ''content-type''"
  by code_simp

lemma getErrorsFromResponse_cases:
  "getErrorsFromResponse r =
     (if Headers_get (response_headers r) ''content-type'' = Some ''application/json'' then
        (case json r of
           Inl e \<Rightarrow> Inl e
         | Inr (JObj fs) \<Rightarrow>
             (case map_of fs ''message'' of
                Some m \<Rightarrow> if truthy m then Inr m else Inr (JStr (statusText r))
              | None \<Rightarrow> Inr (JStr (statusText r)))
         | Inr _ \<Rightarrow> Inr (JStr (statusText r)))
      else if Headers_get (response_headers r) ''content-type'' = Some ''application/vnd.api+json'' then
        (case json r of
           Inl e \<Rightarrow> Inl e
         | Inr (JObj fs) \<Rightarrow>
             (case map_of fs ''errors'' of
                Some es \<Rightarrow> if truthy_opt (opt_prop (Some es) ''length'') then Inr es
                           else Inr (JStr (statusText r))
              | None \<Rightarrow> Inr (JStr (statusText r)))
         | Inr _ \<Rightarrow> Inr (JStr (statusText r)))
      else Inr (JStr (statusText r)))"
  by (auto simp: getErrorsFromResponse_def Let_def opt_prop_def truthy_opt_def
      split: sum.splits JsonValue.splits option.splits)

text \<open>
  Claim C4, as the code has it. \<open>throwIfJsonErrors\<close> throws exactly when
  \<^verbatim>\<open>response.ok\<close> is false. When the content type is \<^verbatim>\<open>application/json\<close> or
  \<^verbatim>\<open>application/vnd.api+json\<close> and the body does not parse, the exception of
  \<^verbatim>\<open>response.json()\<close> is thrown as it is. Otherwise the error is a
  \<^verbatim>\<open>JsonApiErrors\<close> with the given prefix, the status of the response and a detail:
  the message of the body for \<^verbatim>\<open>application/json\<close> and a body with a truthy
  message; the errors of the body for \<^verbatim>\<open>application/vnd.api+json\<close> and a body with
  a non-empty list of errors; the status text for another content type, a body
  without a truthy message, and a body without errors or with an empty list of them.
\<close>

theorem throwIfJsonErrors_detail:
  fixes r :: Response and p :: string
  defines "ct \<equiv> Headers_get (response_headers r) ''content-type''"
  defines "thrown \<equiv> \<lambda>detail. throwIfJsonErrors r p = Inl (JsonApiErrors detail (status r) p)"
  shows "((\<exists>e. throwIfJsonErrors r p = Inl e) \<longleftrightarrow> \<not> ok r) \<and>
   (\<not> ok r \<longrightarrow>
      ((ct = Some ''application/json'' \<or> ct = Some ''application/vnd.api+json'') \<and>
         json r = Inl e \<longrightarrow> throwIfJsonErrors r p = Inl e) \<and>
      (ct = Some ''application/json'' \<and> json r = Inr (JObj fs) \<and>
         map_of fs ''message'' = Some m \<and> truthy m \<longrightarrow> thrown m) \<and>
      (ct = Some ''application/vnd.api+json'' \<and> json r = Inr (JObj gs) \<and>
         map_of gs ''errors'' = Some (JArr es) \<and> es \<noteq> [] \<longrightarrow> thrown (JArr es)) \<and>
      (ct \<noteq> Some ''application/json'' \<and> ct \<noteq> Some ''application/vnd.api+json'' \<longrightarrow>
         thrown (JStr (statusText r))) \<and>
      (ct = Some ''application/json'' \<and> json r = Inr j \<and>
         \<not> truthy_opt (opt_prop (Some j) ''message'') \<longrightarrow> thrown (JStr (statusText r))) \<and>
      (ct = Some ''application/vnd.api+json'' \<and> json r = Inr k \<and>
         (opt_prop (Some k) ''errors'' = None \<or> opt_prop (Some k) ''errors'' = Some (JArr []))
         \<longrightarrow> thrown (JStr (statusText r))))"
proof -
  have throws: "(\<exists>e. throwIfJsonErrors r p = Inl e) \<longleftrightarrow> \<not> ok r"
    by (auto simp: throwIfJsonErrors_def split: sum.splits)
  have parse: "throwIfJsonErrors r p = Inl e"
    if "\<not> ok r" "ct = Some ''application/json'' \<or> ct = Some ''application/vnd.api+json''"
      "json r = Inl e"
    using that by (auto simp: throwIfJsonErrors_def getErrorsFromResponse_cases ct_def)
  have msg: "thrown m"
    if "\<not> ok r" "ct = Some ''application/json''" "json r = Inr (JObj fs)"
      "map_of fs ''message'' = Some m" "truthy m"
    using that by (simp add: thrown_def throwIfJsonErrors_def getErrorsFromResponse_cases ct_def)
  have errs: "thrown (JArr es)"
    if "\<not> ok r" "ct = Some ''application/vnd.api+json''" "json r = Inr (JObj gs)"
      "map_of gs ''errors'' = Some (JArr es)" "es \<noteq> []"
    using that
    by (simp add: thrown_def throwIfJsonErrors_def getErrorsFromResponse_cases ct_def
        opt_prop_def truthy_opt_def)
  have other: "thrown (JStr (statusText r))"
    if "\<not> ok r" "ct \<noteq> Some ''application/json''" "ct \<noteq> Some ''application/vnd.api+json''"
    using that by (simp add: thrown_def throwIfJsonErrors_def getErrorsFromResponse_cases ct_def)
  have nomsg: "thrown (JStr (statusText r))"
    if "\<not> ok r" "ct = Some ''application/json''" "json r = Inr j"
      "\<not> truthy_opt (opt_prop (Some j) ''message'')"
    using that
    by (auto simp: thrown_def throwIfJsonErrors_def getErrorsFromResponse_def ct_def Let_def)
  have noerrs: "thrown (JStr (statusText r))"
    if "\<not> ok r" "ct = Some ''application/vnd.api+json''" "json r = Inr k"
      "opt_prop (Some k) ''errors'' = None \<or> opt_prop (Some k) ''errors'' = Some (JArr [])"
    using that
    by (auto simp: thrown_def throwIfJsonErrors_def getErrorsFromResponse_def ct_def Let_def
        opt_prop_def truthy_opt_def)
  show ?thesis
    apply (intro conjI impI)
    subgoal by (rule throws)
    subgoal by (rule parse) auto
    subgoal by (rule msg) auto
    subgoal by (rule errs) auto
    subgoal by (rule other) auto
    subgoal by (rule nomsg) auto
    subgoal by (rule noerrs) auto
    done
qed

text \<open>
  The theorem at a response with status 422, content type
  \<^verbatim>\<open>application/vnd.api+json\<close> and the body \<^verbatim>\<open>{errors: [{title: "Invalid"}]}\<close>.
\<close>

theorem throwIfJsonErrors_detail_witness:
  "\<not> ok response_422 \<and>
   throwIfJsonErrors response_422 ''Failed: '' =
     Inl (JsonApiErrors (JArr [JObj [(''title'', JStr ''Invalid'')]]) 422 ''Failed: '')"
proof -
  have ct: "Headers_get (response_headers response_422) ''content-type''
              = Some ''application/vnd.api+json''"
    by (simp add: response_422_def Headers_get_def)
  show ?thesis
    using ct throwIfJsonErrors_detail [of response_422 "''Failed: ''" undefined undefined undefined
        "[(''errors'', JArr [JObj [(''title'', JStr ''Invalid'')]])]"
        "[JObj [(''title'', JStr ''Invalid'')]]"]
    by (simp add: response_422_def)
qed

text \<open>
  Claim C4 as it is written fails: for a body that does not parse, the claim has an
  error whose detail is the status text; the code throws the exception of
  \<^verbatim>\<open>response.json()\<close>.
\<close>

theorem throwIfJsonErrors_parse_failure_counterexample:
  "throwIfJsonErrors response_unparsable ''Failed: ''
     = Inl (PlatformError ''Unexpected end of JSON input'') \<and>
   throwIfJsonErrors response_unparsable ''Failed: ''
     \<noteq> Inl (JsonApiErrors (JStr ''Bad Gateway'') 502 ''Failed: '')"
  by (simp add: throwIfJsonErrors_def getErrorsFromResponse_def response_unparsable_def
      Headers_get_def)

subsection \<open>The three methods without their recursion\<close>

lemma getAuthorizationHeader_basic:
  "isBasicAuth a \<Longrightarrow>
   getAuthorizationHeader rt c w a =
     (Inr (''Basic '' @ base64 (template (username (fields_of a)) @ '':'' @
                                template (password (fields_of a)))), c, w)"
  by (simp add: getAuthorizationHeader.simps)

lemma fetch_merge_throws:
  assumes "merge_headers (client_headers c) (headers options) = Inl e"
  shows "fetch rt c w input options = (Inl e, c, w)"
  using assms by (simp add: fetch.simps Let_def RequestInit.truncate_def)

lemma fetch_without_auth:
  assumes "\<not> truthy_withAuth (withAuth options)"
    and "merge_headers (client_headers c) (headers options) = Inr merged"
  shows "fetch rt c w input options =
     (case call_transport (transport_of c w)
             \<lparr>request_input = rewrite_input c input,
              request_init = (RequestInit.truncate options)
                \<lparr>credentials := Some ''include'',
                 headers := Some (HeadersObject merged)\<rparr>\<rparr> w
      of (r, w2) \<Rightarrow> (r, c, w2))"
  using assms
  by (simp add: fetch.simps Let_def transport_of_def RequestInit.truncate_def split: option.splits)

lemma fetch_with_auth:
  assumes "truthy_withAuth (withAuth options)"
    and "merge_headers (client_headers c) (headers options) = Inr merged"
  shows "fetch rt c w input options =
     (case getAuthorizationHeader rt c w (auth_for c (withAuth options)) of
        (Inl e, c1, w1) \<Rightarrow> (Inl e, c1, w1)
      | (Inr h, c1, w1) \<Rightarrow>
         (case Headers_set merged ''Authorization'' h of
            Inl e \<Rightarrow> (Inl e, c1, w1)
          | Inr hs \<Rightarrow>
             (case call_transport (transport_of c1 w1)
                 \<lparr>request_input = rewrite_input c1 input,
                  request_init = (RequestInit.truncate options)
                    \<lparr>credentials := Some ''include'',
                     headers := Some (HeadersObject hs)\<rparr>\<rparr> w1
              of (r, w2) \<Rightarrow> (r, c1, w2))))"
  using assms
  by (simp add: fetch.simps Let_def transport_of_def RequestInit.truncate_def
      split: option.splits prod.splits sum.splits)

lemma sent_call_transport:
  "call_transport t req w = (r, w') \<Longrightarrow> sent w' = sent w @ [req]"
  by (auto simp: call_transport_def split: prod.splits)

subsection \<open>Headers\<close>

lemma map_of_alist_set: "map_of (alist_set k v hs) = (map_of hs)(k \<mapsto> v)"
  by (induction hs) (auto simp: fun_eq_iff)

lemma Headers_set_Inr:
  "Headers_set hs name v = Inr hs' \<longleftrightarrow>
     valid_name name \<and> valid_value (normalize_value v) \<and>
     hs' = alist_set (lower name) (normalize_value v) hs"
  by (auto simp: Headers_set_def)

lemma Headers_set_Inl:
  "Headers_set hs name v = Inl e \<longleftrightarrow>
     \<not> (valid_name name \<and> valid_value (normalize_value v)) \<and> e = invalid_header"
  by (auto simp: Headers_set_def)

lemma Headers_get_set:
  "Headers_set hs name v = Inr hs' \<Longrightarrow>
   Headers_get hs' name' =
     (if lower name' = lower name then Some (normalize_value v) else Headers_get hs name')"
  by (auto simp: Headers_set_Inr Headers_get_def map_of_alist_set)

lemma ascii_lower_idem: "ascii_lower (ascii_lower ch) = ascii_lower ch"
  by (auto simp: ascii_lower_def)

lemma lower_idem [simp]: "lower (lower s) = lower s"
  by (simp add: lower_def ascii_lower_idem)







text \<open>
  The headers after the loop of \<open>fetch\<close>: a header of the call, as
  \<^verbatim>\<open>headers.set\<close> stores it, and otherwise the header of the instance.
\<close>

lemma merge_headers_None: "merge_headers inst None = Inr (Headers_copy inst)"
  by (simp add: merge_headers_def)



text \<open>
  The headers that the class writes itself are valid, and \<^verbatim>\<open>headers.set\<close> stores
  them as they are: the media types, and \<^verbatim>\<open>Basic\<close> followed by base64 digits.
\<close>

lemma header_constants:
  "valid_name ''Authorization'' \<and> valid_name ''authorization'' \<and>
   valid_name ''Accept'' \<and> valid_name ''accept'' \<and>
   valid_name ''Content-Type'' \<and> valid_name ''content-type'' \<and>
   lower ''Authorization'' = ''authorization'' \<and> lower ''authorization'' = ''authorization'' \<and>
   lower ''Accept'' = ''accept'' \<and> lower ''accept'' = ''accept'' \<and>
   lower ''Content-Type'' = ''content-type'' \<and>
   normalize_value ''application/json'' = ''application/json'' \<and>
   valid_value ''application/json'' \<and>
   normalize_value ''application/vnd.api+json'' = ''application/vnd.api+json'' \<and>
   valid_value ''application/vnd.api+json'' \<and>
   normalize_value ''application/x-www-form-urlencoded'' = ''application/x-www-form-urlencoded'' \<and>
   valid_value ''application/x-www-form-urlencoded''"
  by code_simp

lemma normalize_value_id:
  assumes "v \<noteq> []" "\<not> http_whitespace (hd v)" "\<not> http_whitespace (last v)"
  shows "normalize_value v = v"
proof -
  from assms(1,2) have "dropWhile http_whitespace v = v"
    by (cases v) auto
  moreover from assms(1,3) have "dropWhile http_whitespace (rev v) = rev v"
    by (cases v rule: rev_cases) auto
  ultimately show ?thesis
    by (simp add: normalize_value_def)
qed

lemma valid_value_append: "valid_value (a @ b) \<longleftrightarrow> valid_value a \<and> valid_value b"
  by (simp add: valid_value_def)

lemma base64_digit_plain:
  "\<not> http_whitespace (base64_digit n) \<and> valid_value [base64_digit n]"
proof -
  have "base64_digit n \<in> set (''ABCDEFGHIJKLMNOPQRSTUVWXYZ'' @ ''abcdefghijklmnopqrstuvwxyz'' @
                               ''0123456789+/'')"
    unfolding base64_digit_def by (rule nth_mem) simp
  then show ?thesis
    by (auto simp: http_whitespace_def valid_value_def)
qed

lemma base64_bytes_plain:
  "list_all (\<lambda>ch. \<not> http_whitespace ch \<and> valid_value [ch]) (base64_bytes bs)"
proof (induction bs rule: base64_bytes.induct)
  case 1
  then show ?case by simp
next
  case (2 a)
  have "\<not> http_whitespace (CHR ''='') \<and> valid_value ''=''"
    by (simp add: http_whitespace_def valid_value_def)
  then show ?case by (simp add: base64_digit_plain)
next
  case (3 a b)
  have "\<not> http_whitespace (CHR ''='') \<and> valid_value ''=''"
    by (simp add: http_whitespace_def valid_value_def)
  then show ?case by (simp add: base64_digit_plain)
next
  case (4 a b c rest)
  then show ?case by (simp add: base64_digit_plain)
qed

lemma base64_bytes_Nil_iff: "base64_bytes bs = [] \<longleftrightarrow> bs = []"
  by (cases bs rule: base64_bytes.cases) simp_all

lemma basic_header_plain:
  "normalize_value (''Basic '' @ base64 (x @ '':'' @ y)) = ''Basic '' @ base64 (x @ '':'' @ y) \<and>
   valid_value (''Basic '' @ base64 (x @ '':'' @ y))"
proof -
  define b where "b = base64 (x @ '':'' @ y)"
  have plain: "list_all (\<lambda>ch. \<not> http_whitespace ch \<and> valid_value [ch]) b"
    unfolding b_def base64_def by (rule base64_bytes_plain)
  have ne: "b \<noteq> []"
    by (simp add: b_def base64_def base64_bytes_Nil_iff)
  then have "last b \<in> set b" by simp
  with plain have l: "\<not> http_whitespace (last b)"
    by (auto simp: list_all_iff)
  have "valid_value b"
    using plain by (auto simp: list_all_iff valid_value_def)
  moreover have "valid_value ''Basic ''"
    by (simp add: valid_value_def)
  moreover have "normalize_value (''Basic '' @ b) = ''Basic '' @ b"
    using ne l by (intro normalize_value_id) (simp_all add: http_whitespace_def)
  ultimately show ?thesis
    by (simp add: valid_value_append b_def [symmetric] del: append.simps)
qed

lemma merge_headers_token:
  assumes "normalize_value h = h" "valid_value h"
  shows "merge_headers inst
           (Some (HeadersPairs [(''Authorization'', h), (''Accept'', ''application/json''),
                                (''Content-Type'', ''application/x-www-form-urlencoded'')]))
         = Inr (alist_set ''content-type'' ''application/x-www-form-urlencoded''
                 (alist_set ''accept'' ''application/json''
                   (alist_set ''authorization'' h (Headers_copy inst))))"
  using assms
  by (simp add: merge_headers_def Headers_append_def Headers_add_def Headers_set_def
      Headers_get_def Headers_keys_def header_constants)

lemma merge_headers_draft:
  "merge_headers inst
     (Some (HeadersPairs [(''Accept'', ''application/vnd.api+json''),
                          (''Content-Type'', ''application/json'')]))
   = Inr (alist_set ''content-type'' ''application/json''
           (alist_set ''accept'' ''application/vnd.api+json'' (Headers_copy inst)))"
  by (simp add: merge_headers_def Headers_append_def Headers_add_def Headers_set_def
      Headers_get_def Headers_keys_def header_constants)

subsection \<open>The token request\<close>

lemma resolve_auth_Inr:
  "resolve_auth c a = Inr auth' \<Longrightarrow> clientId auth' \<noteq> None \<and> clientSecret auth' \<noteq> None"
  by (auto simp: resolve_auth_def isClientIdSecretAuth_def split: if_splits)

lemma token_cached_iff:
  assumes "clientId auth' \<noteq> None"
  shows "token_cached c w auth' \<longleftrightarrow>
     (truthy_opt (token c) \<and>
      (case tokenExpiresOn c of Some t \<Rightarrow> now w < t | None \<Rightarrow> False) \<and>
      clientId (fields_of (map_option AuthObject (tokenRequestDetails c))) = clientId auth' \<and>
      clientSecret (fields_of (map_option AuthObject (tokenRequestDetails c)))
        = clientSecret auth' \<and>
      scope (fields_of (map_option AuthObject (tokenRequestDetails c))) = scope auth')"
  using assms
  by (cases "tokenRequestDetails c"; cases "tokenExpiresOn c")
     (auto simp: token_cached_def fields_of_def no_fields_def)

lemma fetch_token_request:
  assumes "clientId auth' \<noteq> None" "clientSecret auth' \<noteq> None"
  shows "(case getAuthorizationHeader rt c w
            (Some (AuthObject (no_fields\<lparr>username := clientId auth',
                                          password := clientSecret auth'\<rparr>))) of
            (Inl e, c1, w1) \<Rightarrow> (Inl e, c1, w1)
          | (Inr h, c1, w1) \<Rightarrow>
              (case fetch rt c1 w1 (InputString (URL_toString rt u))
                      \<lparr>method' = Some ''POST'',
                       headers = Some (HeadersPairs
                         [(''Authorization'', h),
                          (''Accept'', ''application/json''),
                          (''Content-Type'', ''application/x-www-form-urlencoded'')]),
                       body = Some (BodyParams
                         (if truthy_string (scope auth')
                          then [(''grant_type'', ''client_credentials'')] @
                               [(''scope'', template (scope auth'))]
                          else [(''grant_type'', ''client_credentials'')])),
                       credentials = None,
                       withAuth = None\<rparr>
               of
                 (Inl e, c2, w2) \<Rightarrow> (Inl e, c2, w2)
               | (Inr response, c2, w2) \<Rightarrow> K response c2 w2))
         = (case call_transport (transport_of c w) (token_request rt c auth' u) w of
              (Inl e, w2) \<Rightarrow> (Inl e, c, w2)
            | (Inr response, w2) \<Rightarrow> K response c w2)"
proof -
  define h where "h = ''Basic '' @ base64 (template (clientId auth') @ '':'' @
                                            template (clientSecret auth'))"
  define options where "options =
     \<lparr>method' = Some ''POST'',
      headers = Some (HeadersPairs
        [(''Authorization'', h),
         (''Accept'', ''application/json''),
         (''Content-Type'', ''application/x-www-form-urlencoded'')]),
      body = Some (BodyParams
        (if truthy_string (scope auth')
         then [(''grant_type'', ''client_credentials'')] @
              [(''scope'', template (scope auth'))]
         else [(''grant_type'', ''client_credentials'')])),
      credentials = None,
      withAuth = None\<rparr>"
  have basic: "isBasicAuth (Some (AuthObject (no_fields\<lparr>username := clientId auth',
                                          password := clientSecret auth'\<rparr>)))"
    using assms by (simp add: isBasicAuth_def fields_of_def)
  have header: "getAuthorizationHeader rt c w
            (Some (AuthObject (no_fields\<lparr>username := clientId auth',
                                          password := clientSecret auth'\<rparr>))) = (Inr h, c, w)"
    by (simp add: getAuthorizationHeader_basic [OF basic] fields_of_def h_def)
  have na: "\<not> truthy_withAuth (withAuth options)"
    by (simp add: truthy_withAuth_def options_def)
  have plain: "normalize_value h = h" "valid_value h"
    unfolding h_def using basic_header_plain by blast+
  have merge: "merge_headers (client_headers c) (headers options)
      = Inr (alist_set ''content-type'' ''application/x-www-form-urlencoded''
              (alist_set ''accept'' ''application/json''
                (alist_set ''authorization'' h (Headers_copy (client_headers c)))))"
    unfolding options_def using merge_headers_token [OF plain] by simp
  have request: "\<lparr>request_input = rewrite_input c (InputString (URL_toString rt u)),
              request_init = (RequestInit.truncate options)
                \<lparr>credentials := Some ''include'',
                 headers := Some (HeadersObject
                   (alist_set ''content-type'' ''application/x-www-form-urlencoded''
                     (alist_set ''accept'' ''application/json''
                       (alist_set ''authorization'' h (Headers_copy (client_headers c))))))\<rparr>\<rparr>
        = token_request rt c auth' u"
    by (simp add: token_request_def options_def RequestInit.truncate_def h_def)
  have f: "fetch rt c w (InputString (URL_toString rt u)) options =
     (case call_transport (transport_of c w) (token_request rt c auth' u) w
      of (r, w2) \<Rightarrow> (r, c, w2))"
    unfolding fetch_without_auth [OF na merge] request ..
  show ?thesis
    apply (simp only: header prod.case sum.case)
    apply (simp only: options_def [symmetric] f)
    apply (simp split: prod.splits sum.splits)
    done
qed

lemma getAccessToken_resolve:
  "getAccessToken rt c w clientIdSecret =
     (if truthy_opt (accessToken c) then (Inr (the (accessToken c)), c, w)
      else
          (case resolve_auth c clientIdSecret
           of
             Inl e \<Rightarrow> (Inl e, c, w)
           | Inr auth' \<Rightarrow>
               (case buildUrl rt c (template (url auth')) None of
                  Inl e \<Rightarrow> (Inl e, c, w)
                | Inr u \<Rightarrow>
                    if truthy_opt (token c) \<and>
                       (case tokenExpiresOn c of Some t \<Rightarrow> now w < t | None \<Rightarrow> False) \<and>
                       clientId (fields_of (map_option AuthObject (tokenRequestDetails c)))
                         = clientId auth' \<and>
                       clientSecret (fields_of (map_option AuthObject (tokenRequestDetails c)))
                         = clientSecret auth' \<and>
                       scope (fields_of (map_option AuthObject (tokenRequestDetails c)))
                         = scope auth'
                    then (Inr (the (token c)), c, w)
                    else
                      (let clientCredentials =
                             no_fields\<lparr>username := clientId auth', password := clientSecret auth'\<rparr>;
                           body0 = [(''grant_type'', ''client_credentials'')];
                           body1 = (if truthy_string (scope auth')
                                    then body0 @ [(''scope'', template (scope auth'))]
                                    else body0)
                       in case getAuthorizationHeader rt c w (Some (AuthObject clientCredentials)) of
                            (Inl e, c1, w1) \<Rightarrow> (Inl e, c1, w1)
                          | (Inr h, c1, w1) \<Rightarrow>
                              (case fetch rt c1 w1 (InputString (URL_toString rt u))
                                      \<lparr>method' = Some ''POST'',
                                       headers = Some (HeadersPairs
                                         [(''Authorization'', h),
                                          (''Accept'', ''application/json''),
                                          (''Content-Type'', ''application/x-www-form-urlencoded'')]),
                                       body = Some (BodyParams body1),
                                       credentials = None,
                                       withAuth = None\<rparr>
                               of
                                 (Inl e, c2, w2) \<Rightarrow> (Inl e, c2, w2)
                               | (Inr response, c2, w2) \<Rightarrow>
                                   (case throwIfJsonErrors response
                                           ''Error while fetching new access token: '' of
                                      Inl e \<Rightarrow> (Inl e, c2, w2)
                                    | Inr _ \<Rightarrow>
                                        (case json response of
                                           Inl e \<Rightarrow> (Inl e, c2, w2)
                                         | Inr result \<Rightarrow>
                                             (case set_token rt c2 w2 result of
                                                (Some e, c3) \<Rightarrow> (Inl e, c3, w2)
                                              | (None, c3) \<Rightarrow>
                                                  (Inr result,
                                                   c3\<lparr>tokenRequestDetails := Some auth'\<rparr>,
                                                   w2)))))))))"
  unfolding resolve_auth_def by (rule getAccessToken.simps)

text \<open>
  \<open>getAccessToken\<close> step by step: the option \<^verbatim>\<open>accessToken\<close>, the credentials,
  the token URL, the test of the stored token, the request, the response, the new
  token.
\<close>

lemma getAccessToken_unfold:
  "getAccessToken rt c w a =
     (if truthy_opt (accessToken c) then (Inr (the (accessToken c)), c, w)
      else
          (case resolve_auth c a of
             Inl e \<Rightarrow> (Inl e, c, w)
           | Inr auth' \<Rightarrow>
               (case buildUrl rt c (template (url auth')) None of
                  Inl e \<Rightarrow> (Inl e, c, w)
                | Inr u \<Rightarrow>
                    if token_cached c w auth' then (Inr (the (token c)), c, w)
                    else
                      (case call_transport (transport_of c w) (token_request rt c auth' u) w of
                         (Inl e, w2) \<Rightarrow> (Inl e, c, w2)
                       | (Inr response, w2) \<Rightarrow>
                           (case throwIfJsonErrors response
                                   ''Error while fetching new access token: '' of
                              Inl e \<Rightarrow> (Inl e, c, w2)
                            | Inr _ \<Rightarrow>
                                (case json response of
                                   Inl e \<Rightarrow> (Inl e, c, w2)
                                 | Inr result \<Rightarrow>
                                     (case set_token rt c w2 result of
                                        (Some e, c3) \<Rightarrow> (Inl e, c3, w2)
                                      | (None, c3) \<Rightarrow>
                                          (Inr result,
                                           c3\<lparr>tokenRequestDetails := Some auth'\<rparr>,
                                           w2))))))))"
proof (cases "truthy_opt (accessToken c)")
  case True
  then show ?thesis by (simp add: getAccessToken_resolve)
next
  case False
  show ?thesis
  proof (cases "resolve_auth c a")
    case (Inl e)
    then show ?thesis
      using False by (simp add: getAccessToken_resolve)
  next
    case (Inr auth')
    note ids = resolve_auth_Inr [OF Inr]
    show ?thesis
    proof (cases "buildUrl rt c (template (url auth')) None")
      case (Inl e)
      then show ?thesis
        using False Inr by (simp add: getAccessToken_resolve)
    next
      case u: (Inr u)
      show ?thesis
        by (simp only: getAccessToken_resolve [of rt c w a] False Inr u if_False sum.case
            Let_def token_cached_iff [OF ids [THEN conjunct1]]
            fetch_token_request [OF ids [THEN conjunct1] ids [THEN conjunct2]])
    qed
  qed
qed




subsection \<open>The authorization header\<close>

text \<open>
  Claim C1. The header follows the first rule that matches: user name and password
  give \<^verbatim>\<open>Basic\<close> and the base64 form of \<^verbatim>\<open>username:password\<close>; otherwise client
  id and secret give \<^verbatim>\<open>Bearer\<close> and the access token of the token that
  \<open>getAccessToken\<close> returns (or its error); otherwise access token and token type
  give the two joined by a space; otherwise a string is the header and a function is
  called for it; anything else throws the configuration error and leaves the client
  and the world as they were. For a token that is an object with the string \<open>t\<close> as
  its \<^verbatim>\<open>access_token\<close>, the header is \<^verbatim>\<open>Bearer\<close>, a space and \<open>t\<close>. \<open>fetch\<close>
  with \<^verbatim>\<open>withAuth: true\<close> on a client without \<^verbatim>\<open>auth\<close> throws the configuration
  error too, unless the headers of the call are not valid, for which it throws first;
  it sends nothing.
\<close>

theorem getAuthorizationHeader_dispatch:
  "getAuthorizationHeader rt c w a =
     (case a of
        Some (AuthObject f) \<Rightarrow>
          (case (username f, password f) of
             (Some u, Some p) \<Rightarrow> (Inr (''Basic '' @ base64 (u @ '':'' @ p)), c, w)
           | _ \<Rightarrow>
             (case (clientId f, clientSecret f) of
                (Some i, Some s) \<Rightarrow>
                  (case getAccessToken rt c w a of
                     (Inr tok, c', w') \<Rightarrow> (bearer_header tok, c', w')
                   | (Inl e, c', w') \<Rightarrow> (Inl e, c', w'))
              | _ \<Rightarrow>
                (case (access_token f, token_type f) of
                   (Some at, Some tt) \<Rightarrow> (Inr (tt @ '' '' @ at), c, w)
                 | _ \<Rightarrow> (Inl auth_not_configured, c, w))))
      | Some (AuthString s) \<Rightarrow> (Inr s, c, w)
      | Some (AuthCallback g) \<Rightarrow> (g (), c, w)
      | None \<Rightarrow> (Inl auth_not_configured, c, w)) \<and>
   (map_of fs ''access_token'' = Some (JStr t) \<longrightarrow>
      bearer_header (JObj fs) = Inr (''Bearer '' @ t)) \<and>
   (auth c = None \<longrightarrow>
      fetch rt c w input (options\<lparr>withAuth := Some (WithAuthBool True)\<rparr>)
        = (Inl (case merge_headers (client_headers c) (headers options) of
                  Inl e \<Rightarrow> e
                | Inr merged \<Rightarrow> auth_not_configured), c, w))"
proof -
  have a: "getAuthorizationHeader rt c w None = (Inl auth_not_configured, c, w)"
    by (simp add: getAuthorizationHeader.simps isBasicAuth_def isClientIdSecretAuth_def
        isAccessTokenAuth_def fields_of_def no_fields_def)
  have f: "fetch rt c w input (options\<lparr>withAuth := Some (WithAuthBool True)\<rparr>)
        = (Inl (case merge_headers (client_headers c) (headers options) of
                  Inl e \<Rightarrow> e
                | Inr merged \<Rightarrow> auth_not_configured), c, w)" if "auth c = None"
  proof (cases "merge_headers (client_headers c) (headers options)")
    case (Inl e)
    then show ?thesis
      using fetch_merge_throws [of c "options\<lparr>withAuth := Some (WithAuthBool True)\<rparr>" e]
      by simp
  next
    case (Inr merged)
    have "fetch rt c w input (options\<lparr>withAuth := Some (WithAuthBool True)\<rparr>) =
        (case getAuthorizationHeader rt c w None of
           (Inl e, c1, w1) \<Rightarrow> (Inl e, c1, w1)
         | (Inr h, c1, w1) \<Rightarrow> (Inl auth_not_configured, c1, w1))"
      using that Inr
        fetch_with_auth [of "options\<lparr>withAuth := Some (WithAuthBool True)\<rparr>" c merged rt w input]
      by (simp add: truthy_withAuth_def auth_for_def a)
    then show ?thesis
      using Inr by (simp add: a)
  qed
  have b: "bearer_header (JObj fs) = Inr (''Bearer '' @ t)"
    if "map_of fs ''access_token'' = Some (JStr t)"
    using that by (simp add: bearer_header_def read_property_def template_json_def)
  have d: "getAuthorizationHeader rt c w a =
     (case a of
        Some (AuthObject f) \<Rightarrow>
          (case (username f, password f) of
             (Some u, Some p) \<Rightarrow> (Inr (''Basic '' @ base64 (u @ '':'' @ p)), c, w)
           | _ \<Rightarrow>
             (case (clientId f, clientSecret f) of
                (Some i, Some s) \<Rightarrow>
                  (case getAccessToken rt c w a of
                     (Inr tok, c', w') \<Rightarrow> (bearer_header tok, c', w')
                   | (Inl e, c', w') \<Rightarrow> (Inl e, c', w'))
              | _ \<Rightarrow>
                (case (access_token f, token_type f) of
                   (Some at, Some tt) \<Rightarrow> (Inr (tt @ '' '' @ at), c, w)
                 | _ \<Rightarrow> (Inl auth_not_configured, c, w))))
      | Some (AuthString s) \<Rightarrow> (Inr s, c, w)
      | Some (AuthCallback g) \<Rightarrow> (g (), c, w)
      | None \<Rightarrow> (Inl auth_not_configured, c, w))"
    by (auto simp: getAuthorizationHeader.simps [of rt c w a] isBasicAuth_def
        isClientIdSecretAuth_def isAccessTokenAuth_def fields_of_def no_fields_def template_def
        bearer_header_def
        split: option.splits NextDrupalAuth.splits prod.splits sum.splits)
  from d b f show ?thesis by blast
qed

text \<open>
  The theorem at the user name \<^verbatim>\<open>a\<close> and the password \<^verbatim>\<open>b\<close>, which give
  \<^verbatim>\<open>Basic YTpi\<close>, at the token \<^verbatim>\<open>{access_token: "abc"}\<close>, and at \<open>fetch\<close> with
  \<^verbatim>\<open>withAuth: true\<close> on the example client, which has no \<^verbatim>\<open>auth\<close>.
\<close>

theorem getAuthorizationHeader_dispatch_witness:
  "getAuthorizationHeader runtime example_client example_world
     (Some (AuthObject (no_fields\<lparr>username := Some ''a'', password := Some ''b''\<rparr>)))
     = (Inr ''Basic YTpi'', example_client, example_world) \<and>
   map_of [(''access_token'', JStr ''abc'')] ''access_token'' = Some (JStr ''abc'') \<and>
   bearer_header (JObj [(''access_token'', JStr ''abc'')]) = Inr ''Bearer abc'' \<and>
   auth example_client = None \<and>
   fetch runtime example_client example_world (InputString ''/jsonapi'')
     \<lparr>method' = None, headers = None, body = None, credentials = None,
      withAuth = Some (WithAuthBool True)\<rparr>
     = (Inl auth_not_configured, example_client, example_world)"
proof -
  have b: "base64 ''a:b'' = ''YTpi''" by code_simp
  have n: "auth example_client = None" by (simp add: example_client_def)
  show ?thesis
    using getAuthorizationHeader_dispatch [of runtime example_client example_world
        "Some (AuthObject (no_fields\<lparr>username := Some ''a'', password := Some ''b''\<rparr>))"
        "[(''access_token'', JStr ''abc'')]" "''abc''"
        "InputString ''/jsonapi''"
        "\<lparr>method' = None, headers = None, body = None, credentials = None,
          withAuth = None\<rparr>"] b n
    by (simp add: no_fields_def merge_headers_None)
qed

subsection \<open>Lemmas for the examples\<close>

lemma getAuthorizationHeader_string:
  "getAuthorizationHeader rt c w (Some (AuthString s)) = (Inr s, c, w)"
  by (simp add: getAuthorizationHeader.simps isBasicAuth_def isClientIdSecretAuth_def
      isAccessTokenAuth_def fields_of_def no_fields_def)

lemma buildUrl_token_url:
  "buildUrl runtime cached_client ''/oauth/token'' None = Inr token_url"
  by code_simp

lemma resolve_id_secret:
  "resolve_auth c (Some (AuthObject (id_secret\<lparr>scope := s\<rparr>)))
     = Inr (id_secret\<lparr>url := Some ''/oauth/token'', scope := s\<rparr>)"
  by (simp add: resolve_auth_def isClientIdSecretAuth_def fields_of_def id_secret_def
      no_fields_def DEFAULT_AUTH_URL_def)

lemma getAccessToken_miss:
  assumes "accessToken c = None" "resolve_auth c a = Inr req"
    "buildUrl rt c (template (url req)) None = Inr u" "\<not> token_cached c w req"
  shows "sent (snd (snd (getAccessToken rt c w a))) = sent w @ [token_request rt c req u]"
  using assms
  by (auto simp: getAccessToken_unfold call_transport_def truthy_opt_def
      split: prod.splits sum.splits option.splits)

lemma buildUrl_draft_url:
  "buildUrl runtime example_client ''/next/draft-url'' None = Inr draft_url"
  by code_simp


subsection \<open>The cached token\<close>

text \<open>
  Claim C2, as the code has it. For a client without the option \<^verbatim>\<open>accessToken\<close>,
  \<open>getAccessToken\<close> first settles the credentials of the request and builds the
  token URL. When the credentials are not a client id and a client secret (from the
  argument or from the instance), or \<^verbatim>\<open>new URL\<close> does not accept the token URL, it
  throws and sends nothing, whatever is stored. Otherwise, with the credentials
  \<open>req\<close> and the token URL \<open>u\<close>, it uses the stored token exactly when a token is
  stored, the clock is before the stored expiry, and the stored client id, client
  secret and scope are those of \<open>req\<close>: then it returns the stored token and changes
  neither the client nor the world, so nothing is sent. When one of the three
  fails, it hands exactly one request, the token request, to the transport; a
  token in the answer (an object whose \<^verbatim>\<open>expires_in\<close> is a number) is returned and
  stored in place of the old one, with its expiry and with \<open>req\<close>.
\<close>

theorem getAccessToken_cache:
  fixes c :: client and w :: world and req :: AuthFields
    and rt :: "'url platform" and a :: "NextDrupalAuth option"
  defines "cached \<equiv>
     truthy_opt (token c) \<and>
     (\<exists>t. tokenExpiresOn c = Some t \<and> now w < t) \<and>
     (\<exists>d. tokenRequestDetails c = Some d \<and> clientId d = clientId req \<and>
          clientSecret d = clientSecret req \<and> scope d = scope req)"
  defines "after \<equiv> getAccessToken rt c w a"
  assumes no_token_option: "accessToken c = None"
  shows
   "(resolve_auth c a = Inl e \<longrightarrow> after = (Inl e, c, w)) \<and>
    (resolve_auth c a = Inr req \<and> buildUrl rt c (template (url req)) None = Inl e' \<longrightarrow>
       after = (Inl e', c, w)) \<and>
    (resolve_auth c a = Inr req \<and> buildUrl rt c (template (url req)) None = Inr u \<longrightarrow>
       (cached \<longrightarrow> after = (Inr (the (token c)), c, w)) \<and>
       (\<not> cached \<longrightarrow> sent (snd (snd after)) = sent w @ [token_request rt c req u]) \<and>
       (sent (snd (snd after)) = sent w \<longleftrightarrow> cached) \<and>
       (\<not> cached \<and>
        fst (transport_of c w (token_request rt c req u) (now w)) = Inr response \<and>
        ok response \<and> json response = Inr (JObj fs) \<and>
        map_of fs ''expires_in'' = Some (JNum n) \<longrightarrow>
          fst after = Inr (JObj fs) \<and>
          token (fst (snd after)) = Some (JObj fs) \<and>
          tokenExpiresOn (fst (snd after)) = Some (now (snd (snd after)) + n * 1000) \<and>
          tokenRequestDetails (fst (snd after)) = Some req))"
proof -
  have no_option: "\<not> truthy_opt (accessToken c)"
    using no_token_option by (simp add: truthy_opt_def)
  have unresolved: "after = (Inl e, c, w)" if "resolve_auth c a = Inl e"
    using that no_option by (simp add: after_def getAccessToken_unfold)
  have no_url: "after = (Inl e', c, w)"
    if "resolve_auth c a = Inr req" "buildUrl rt c (template (url req)) None = Inl e'"
    using that no_option by (simp add: after_def getAccessToken_unfold)
  have cached: "cached \<longleftrightarrow> token_cached c w req"
    by (simp add: cached_def token_cached_def)
  have hit: "after = (Inr (the (token c)), c, w)"
    if "resolve_auth c a = Inr req" "buildUrl rt c (template (url req)) None = Inr u" cached
    using that no_option by (simp add: after_def getAccessToken_unfold cached)
  have miss: "sent (snd (snd after)) = sent w @ [token_request rt c req u]"
    if "resolve_auth c a = Inr req" "buildUrl rt c (template (url req)) None = Inr u"
      "\<not> cached"
    unfolding after_def
    using that(3) by (intro getAccessToken_miss [OF no_token_option that(1,2)]) (simp add: cached)
  have new: "fst after = Inr (JObj fs) \<and>
          token (fst (snd after)) = Some (JObj fs) \<and>
          tokenExpiresOn (fst (snd after)) = Some (now (snd (snd after)) + n * 1000) \<and>
          tokenRequestDetails (fst (snd after)) = Some req"
    if "resolve_auth c a = Inr req" "buildUrl rt c (template (url req)) None = Inr u"
      "\<not> cached" "fst (transport_of c w (token_request rt c req u) (now w)) = Inr response"
      "ok response" "json response = Inr (JObj fs)" "map_of fs ''expires_in'' = Some (JNum n)"
    using that no_option
    by (auto simp: after_def getAccessToken_unfold cached call_transport_def throwIfJsonErrors_def
        set_token_def read_property_def to_number_def Let_def
        split: prod.splits sum.splits option.splits)
  show ?thesis
    apply (intro conjI impI)
    subgoal by (rule unresolved)
    subgoal using no_url by blast
    subgoal using hit by blast
    subgoal using miss by blast
    subgoal using hit miss by (cases cached) auto
    subgoal using new by blast
    subgoal using new by blast
    subgoal using new by blast
    subgoal using new by blast
    done
qed

text \<open>
  The theorem on the client with a stored token: the same credentials return the
  stored token; the same client id and secret with another scope send one request;
  and on the example client, which has no credentials, the call throws.
\<close>

theorem getAccessToken_cache_witness:
  "getAccessToken runtime cached_client example_world
     (Some (AuthObject (id_secret\<lparr>scope := None\<rparr>)))
     = (Inr cached_token, cached_client, example_world) \<and>
   sent (snd (snd (getAccessToken runtime cached_client example_world
     (Some (AuthObject (id_secret\<lparr>scope := Some ''admin''\<rparr>))))))
     = [token_request runtime cached_client
          (id_secret\<lparr>url := Some ''/oauth/token'', scope := Some ''admin''\<rparr>) token_url] \<and>
   getAccessToken runtime example_client example_world None
     = (Inl auth_not_configured, example_client, example_world)"
proof -
  have a: "accessToken cached_client = None"
    by (simp add: cached_client_def example_client_def)
  have u: "buildUrl runtime cached_client
             (template (url (id_secret\<lparr>url := Some ''/oauth/token'', scope := s\<rparr>))) None
           = Inr token_url" for s
    by (simp add: template_def buildUrl_token_url)
  have hit: "getAccessToken runtime cached_client example_world
     (Some (AuthObject (id_secret\<lparr>scope := None\<rparr>)))
     = (Inr cached_token, cached_client, example_world)"
    using getAccessToken_cache [OF a, where w = example_world and rt = runtime
        and a = "Some (AuthObject (id_secret\<lparr>scope := None\<rparr>))"
        and req = "id_secret\<lparr>url := Some ''/oauth/token'', scope := None\<rparr>" and u = token_url]
      resolve_id_secret [where s = None] u
    by (simp add: cached_client_def example_world_def id_secret_def no_fields_def
        truthy_opt_def cached_token_def)
  have miss: "sent (snd (snd (getAccessToken runtime cached_client example_world
     (Some (AuthObject (id_secret\<lparr>scope := Some ''admin''\<rparr>))))))
     = [token_request runtime cached_client
          (id_secret\<lparr>url := Some ''/oauth/token'', scope := Some ''admin''\<rparr>) token_url]"
    using getAccessToken_cache [OF a, where w = example_world and rt = runtime
        and a = "Some (AuthObject (id_secret\<lparr>scope := Some ''admin''\<rparr>))"
        and req = "id_secret\<lparr>url := Some ''/oauth/token'', scope := Some ''admin''\<rparr>"
        and u = token_url]
      resolve_id_secret [where s = "Some ''admin''"] u
    by (simp add: cached_client_def example_world_def id_secret_def no_fields_def)
  have n: "accessToken example_client = None"
    by (simp add: example_client_def)
  have r: "resolve_auth example_client None = Inl auth_not_configured"
    by (simp add: resolve_auth_def isClientIdSecretAuth_def fields_of_def no_fields_def
        example_client_def)
  have none: "getAccessToken runtime example_client example_world None
     = (Inl auth_not_configured, example_client, example_world)"
    using getAccessToken_cache [OF n, where w = example_world and rt = runtime
        and a = None and e = auth_not_configured] r
    by simp
  from hit miss none show ?thesis by simp
qed

text \<open>
  Claim C2 as it is written fails: it has one token request whenever one of the three
  conditions fails. On the example client, which has no credentials and no stored
  token, the call throws and sends nothing; so it does on a client with credentials
  whose base URL \<^verbatim>\<open>example.com\<close> has no scheme, for which \<^verbatim>\<open>new URL\<close> throws.
\<close>

theorem getAccessToken_no_request_counterexample:
  "accessToken example_client = None \<and> token example_client = None \<and>
   fst (getAccessToken runtime example_client example_world None) = Inl auth_not_configured \<and>
   sent (snd (snd (getAccessToken runtime example_client example_world None))) = [] \<and>
   accessToken schemeless_client = None \<and> token schemeless_client = None \<and>
   fst (getAccessToken runtime schemeless_client example_world None)
     = Inl (PlatformError ''Invalid URL'') \<and>
   sent (snd (snd (getAccessToken runtime schemeless_client example_world None))) = []"
  by code_simp

text \<open>
  Claim C3, as the code has it. When a call of \<open>getAccessToken\<close> has handed a
  request to the transport and the answer is a response that is not a success, the
  call throws what \<open>throwIfJsonErrors\<close> throws for this response, and the client is
  as it was: the stored token, its expiry and the stored credentials are unchanged.
  What is thrown is the translated error, a \<^verbatim>\<open>JsonApiErrors\<close> with the status of
  the response and the prefix of the token request, when the body of the response
  parses or its content type is neither \<^verbatim>\<open>application/json\<close> nor
  \<^verbatim>\<open>application/vnd.api+json\<close>; for one of these two content types and a body that
  does not parse, it is the exception of \<^verbatim>\<open>response.json()\<close>.
\<close>

theorem getAccessToken_failure_keeps_cache:
  fixes response :: Response
  defines "ct \<equiv> Headers_get (response_headers response) ''content-type''"
  defines "translated \<equiv> \<lambda>detail.
     JsonApiErrors detail (status response) ''Error while fetching new access token: ''"
  assumes call: "getAccessToken rt c w a = (res, c', w')"
    and sent: "sent w' = sent w @ [request]"
    and answer: "fst (transport_of c w request (now w)) = Inr response"
    and failure: "\<not> ok response"
  shows "res = (case getErrorsFromResponse response of
                  Inl e \<Rightarrow> Inl e | Inr detail \<Rightarrow> Inl (translated detail)) \<and>
         (json response = Inr j \<longrightarrow> (\<exists>detail. res = Inl (translated detail))) \<and>
         (ct \<noteq> Some ''application/json'' \<and> ct \<noteq> Some ''application/vnd.api+json'' \<longrightarrow>
            res = Inl (translated (JStr (statusText response)))) \<and>
         ((ct = Some ''application/json'' \<or> ct = Some ''application/vnd.api+json'') \<and>
            json response = Inl e \<longrightarrow> res = Inl e) \<and>
         token c' = token c \<and> tokenExpiresOn c' = tokenExpiresOn c \<and>
         tokenRequestDetails c' = tokenRequestDetails c \<and> c' = c"
proof -
  have neq: "sent w @ [request] \<noteq> sent w" by simp
  have thrown: "throwIfJsonErrors response ''Error while fetching new access token: ''
      = (case getErrorsFromResponse response of
           Inl e \<Rightarrow> Inl e | Inr detail \<Rightarrow> Inl (translated detail))"
    using failure by (simp add: throwIfJsonErrors_def translated_def split: sum.splits)
  then obtain x where x: "throwIfJsonErrors response ''Error while fetching new access token: ''
      = Inl x"
    by (cases "getErrorsFromResponse response") auto
  have "res = Inl x \<and> c' = c"
    using call sent answer x neq
    by (auto simp: getAccessToken_unfold call_transport_def
        split: option.splits sum.splits if_splits prod.splits)
  then have res: "res = (case getErrorsFromResponse response of
                  Inl e \<Rightarrow> Inl e | Inr detail \<Rightarrow> Inl (translated detail))" and same: "c' = c"
    using x thrown by (auto split: sum.splits)
  have parsed: "\<exists>detail. res = Inl (translated detail)" if "json response = Inr j"
    unfolding res using that
    by (auto simp: getErrorsFromResponse_def Let_def split: sum.splits option.splits)
  have other: "res = Inl (translated (JStr (statusText response)))"
    if "ct \<noteq> Some ''application/json''" "ct \<noteq> Some ''application/vnd.api+json''"
    unfolding res using that by (simp add: getErrorsFromResponse_def ct_def)
  have unparsed: "res = Inl e"
    if "ct = Some ''application/json'' \<or> ct = Some ''application/vnd.api+json''"
      "json response = Inl e"
    unfolding res using that by (auto simp: getErrorsFromResponse_def ct_def)
  show ?thesis
    apply (intro conjI impI)
    subgoal by (rule res)
    subgoal using parsed by blast
    subgoal using other by blast
    subgoal using unparsed by blast
    subgoal using same by simp
    subgoal using same by simp
    subgoal using same by simp
    subgoal by (rule same)
    done
qed

text \<open>
  The theorem on the client with a stored token, for another scope, in the world
  that answers with status 401 and a message.
\<close>

theorem getAccessToken_failure_keeps_cache_witness:
  "fst (getAccessToken runtime cached_client refusing_world
          (Some (AuthObject (id_secret\<lparr>scope := Some ''admin''\<rparr>))))
     = Inl (JsonApiErrors (JStr ''The client credentials are invalid'') 401
              ''Error while fetching new access token: '') \<and>
   fst (snd (getAccessToken runtime cached_client refusing_world
          (Some (AuthObject (id_secret\<lparr>scope := Some ''admin''\<rparr>)))))
     = cached_client \<and>
   token cached_client = Some cached_token"
proof -
  define call where "call = getAccessToken runtime cached_client refusing_world
          (Some (AuthObject (id_secret\<lparr>scope := Some ''admin''\<rparr>)))"
  have a: "accessToken cached_client = None"
    by (simp add: cached_client_def example_client_def)
  have u: "buildUrl runtime cached_client
             (template (url (id_secret\<lparr>url := Some ''/oauth/token'', scope := Some ''admin''\<rparr>)))
             None = Inr token_url"
    by (simp add: template_def buildUrl_token_url)
  have n: "\<not> token_cached cached_client refusing_world
              (id_secret\<lparr>url := Some ''/oauth/token'', scope := Some ''admin''\<rparr>)"
    by (simp add: token_cached_def cached_client_def id_secret_def no_fields_def)
  have s: "sent (snd (snd call)) = sent refusing_world @
             [token_request runtime cached_client
                (id_secret\<lparr>url := Some ''/oauth/token'', scope := Some ''admin''\<rparr>) token_url]"
    unfolding call_def by (rule getAccessToken_miss [OF a resolve_id_secret u n])
  have t: "fst (transport_of cached_client refusing_world request (now refusing_world))
             = Inr response_401" for request
    by (simp add: transport_of_def cached_client_def example_client_def refusing_world_def)
  have f: "\<not> ok response_401"
    by (simp add: response_401_def)
  have e: "getErrorsFromResponse response_401 = Inr (JStr ''The client credentials are invalid'')"
    by (simp add: getErrorsFromResponse_cases response_401_def Headers_get_def)
  have "call = (fst call, fst (snd call), snd (snd call))" by simp
  from getAccessToken_failure_keeps_cache [OF this [unfolded call_def] s [unfolded call_def] t f] e
  show ?thesis
    by (simp add: cached_client_def response_401_def)
qed

text \<open>
  Claim C3 as it is written fails: in the world whose token endpoint answers with
  status 502 and a body that does not parse, the call does not throw the translated
  error, but the exception of \<^verbatim>\<open>response.json()\<close>. One request has been sent.
\<close>

theorem getAccessToken_parse_failure_counterexample:
  "fst (getAccessToken runtime cached_client unparsable_world
          (Some (AuthObject (id_secret\<lparr>scope := Some ''admin''\<rparr>))))
     = Inl (PlatformError ''Unexpected end of JSON input'') \<and>
   length (sent (snd (snd (getAccessToken runtime cached_client unparsable_world
          (Some (AuthObject (id_secret\<lparr>scope := Some ''admin''\<rparr>))))))) = 1 \<and>
   \<not> ok response_unparsable \<and> status response_unparsable = 502"
  by code_simp

subsection \<open>Building URLs\<close>

text \<open>
  Claim C5, on the model of the \<^verbatim>\<open>URL\<close> class and of \<^verbatim>\<open>qs\<close>. For the base URL
  \<^verbatim>\<open>https://example.com\<close>, \<^verbatim>\<open>buildUrl("/foo", {bar: "baz"})\<close> is
  \<^verbatim>\<open>https://example.com/foo?bar=baz\<close>, and the key \<^verbatim>\<open>fields[node--article]\<close> with
  the value \<^verbatim>\<open>title,path\<close> gives the query
  \<^verbatim>\<open>fields%5Bnode--article%5D=title%2Cpath\<close>: one pair, with the brackets of the key
  kept and encoded. The nested value \<^verbatim>\<open>{fields: {"node--article": "title,path"}}\<close>
  gives the same query.
\<close>

theorem buildUrl_examples:
  "map_sum id (URL_toString runtime)
     (buildUrl runtime example_client ''/foo'' (Some (SearchRecord [(''bar'', QsString ''baz'')])))
     = Inr ''https://example.com/foo?bar=baz'' \<and>
   map_sum id (URL_toString runtime)
     (buildUrl runtime example_client ''/jsonapi/node/article''
        (Some (SearchRecord [(''fields[node--article]'', QsString ''title,path'')])))
     = Inr ''https://example.com/jsonapi/node/article?fields%5Bnode--article%5D=title%2Cpath'' \<and>
   map_sum id search
     (buildUrl runtime example_client ''/jsonapi/node/article''
        (Some (SearchRecord [(''fields[node--article]'', QsString ''title,path'')])))
     = Inr ''?fields%5Bnode--article%5D=title%2Cpath'' \<and>
   map_sum id search
     (buildUrl runtime example_client ''/jsonapi/node/article''
        (Some (SearchRecord [(''fields'', QsObject [(''node--article'', QsString ''title,path'')])])))
     = Inr ''?fields%5Bnode--article%5D=title%2Cpath''"
  by code_simp

subsection \<open>The request of fetch\<close>






text \<open>
  Claim C10, as the code has it. When \<^verbatim>\<open>withAuth\<close> is truthy, the headers of the
  call are valid and the header resolves to \<open>h\<close>, \<open>fetch\<close> sets \<open>h\<close> as the
  \<^verbatim>\<open>Authorization\<close> header of the merged headers, and \<^verbatim>\<open>headers.set\<close> stores it
  without the white space at its two ends: the request handed to the transport has
  this \<^verbatim>\<open>Authorization\<close> header, whatever headers the caller gave, which is \<open>h\<close>
  itself when \<open>h\<close> neither begins nor ends with white space. When \<open>h\<close> is not a
  valid header value, \<open>fetch\<close> throws and hands no request of its own over. When
  the headers of the call are not valid, \<open>fetch\<close> throws before it resolves the
  header.
\<close>

theorem fetch_authorization:
  assumes "truthy_withAuth (withAuth options)"
    and "fetch rt c w input options = (res, c', w')"
  shows
   "(merge_headers (client_headers c) (headers options) = Inl e \<longrightarrow>
       res = Inl e \<and> c' = c \<and> w' = w) \<and>
    (merge_headers (client_headers c) (headers options) = Inr merged \<and>
     getAuthorizationHeader rt c w (auth_for c (withAuth options)) = (Inr h, c1, w1) \<longrightarrow>
       (valid_value (normalize_value h) \<longrightarrow>
          (\<exists>request hs. sent w' = sent w1 @ [request] \<and>
             headers (request_init request) = Some (HeadersObject hs) \<and>
             Headers_get hs ''Authorization'' = Some (normalize_value h))) \<and>
       (\<not> valid_value (normalize_value h) \<longrightarrow>
          res = Inl invalid_header \<and> c' = c1 \<and> w' = w1) \<and>
       (h \<noteq> [] \<and> \<not> http_whitespace (hd h) \<and> \<not> http_whitespace (last h) \<longrightarrow>
          normalize_value h = h))"
proof -
  have invalid: "res = Inl e \<and> c' = c \<and> w' = w"
    if "merge_headers (client_headers c) (headers options) = Inl e"
    using assms(2) that fetch_merge_throws [of c options e rt w input] by simp
  have name: "valid_name ''Authorization''"
    using header_constants by blast
  have carried: "\<exists>request hs. sent w' = sent w1 @ [request] \<and>
             headers (request_init request) = Some (HeadersObject hs) \<and>
             Headers_get hs ''Authorization'' = Some (normalize_value h)"
    if "merge_headers (client_headers c) (headers options) = Inr merged"
      "getAuthorizationHeader rt c w (auth_for c (withAuth options)) = (Inr h, c1, w1)"
      "valid_value (normalize_value h)"
  proof -
    define hs where "hs = alist_set (lower ''Authorization'') (normalize_value h) merged"
    have set: "Headers_set merged ''Authorization'' h = Inr hs"
      using that(3) name by (simp add: Headers_set_def hs_def)
    have "call_transport (transport_of c1 w1)
             \<lparr>request_input = rewrite_input c1 input,
              request_init = (RequestInit.truncate options)
                \<lparr>credentials := Some ''include'',
                 headers := Some (HeadersObject hs)\<rparr>\<rparr> w1 = (res, w')"
      using assms that(1,2) set fetch_with_auth [of options c merged rt w input]
      by (auto split: prod.splits)
    from sent_call_transport [OF this] Headers_get_set [OF set, of "''Authorization''"]
    show ?thesis by simp
  qed
  have refused: "res = Inl invalid_header \<and> c' = c1 \<and> w' = w1"
    if "merge_headers (client_headers c) (headers options) = Inr merged"
      "getAuthorizationHeader rt c w (auth_for c (withAuth options)) = (Inr h, c1, w1)"
      "\<not> valid_value (normalize_value h)"
  proof -
    have "Headers_set merged ''Authorization'' h = Inl invalid_header"
      using that(3) by (simp add: Headers_set_def)
    then show ?thesis
      using assms that(1,2) fetch_with_auth [of options c merged rt w input] by simp
  qed
  have same: "normalize_value h = h"
    if "h \<noteq> []" "\<not> http_whitespace (hd h)" "\<not> http_whitespace (last h)"
    using that by (rule normalize_value_id)
  show ?thesis
    apply (intro conjI impI)
    subgoal using invalid by blast
    subgoal using invalid by blast
    subgoal using invalid by blast
    subgoal using carried by blast
    subgoal using refused by blast
    subgoal using refused by blast
    subgoal using refused by blast
    subgoal using same by blast
    done
qed

text \<open>
  The theorem at a call whose own \<^verbatim>\<open>Authorization\<close> header is
  \<^verbatim>\<open>Bearer caller\<close> and whose \<^verbatim>\<open>withAuth\<close> is the string \<^verbatim>\<open>Bearer resolved\<close>.
\<close>

theorem fetch_authorization_witness:
  "truthy_withAuth (Some (WithAuthConfig (AuthString ''Bearer resolved''))) \<and>
   valid_value (normalize_value ''Bearer resolved'') \<and>
   normalize_value ''Bearer resolved'' = ''Bearer resolved'' \<and>
   (\<exists>request hs.
      sent (snd (snd (fetch runtime example_client example_world (InputString ''/jsonapi'')
        \<lparr>method' = None,
         headers = Some (HeadersPairs [(''Authorization'', ''Bearer caller'')]),
         body = None, credentials = None,
         withAuth = Some (WithAuthConfig (AuthString ''Bearer resolved''))\<rparr>)))
      = [request] \<and>
      headers (request_init request) = Some (HeadersObject hs) \<and>
      Headers_get hs ''Authorization'' = Some ''Bearer resolved'')"
proof -
  define options where "options =
        \<lparr>method' = None,
         headers = Some (HeadersPairs [(''Authorization'', ''Bearer caller'')]),
         body = None, credentials = None,
         withAuth = Some (WithAuthConfig (AuthString ''Bearer resolved''))\<rparr>"
  define call where "call = fetch runtime example_client example_world
      (InputString ''/jsonapi'') options"
  have t: "truthy_withAuth (withAuth options)"
    by (simp add: options_def truthy_withAuth_def)
  have m: "merge_headers (client_headers example_client) (headers options)
             = Inr [(''content-type'', ''application/json''), (''accept'', ''application/json''),
                    (''authorization'', ''Bearer caller'')]"
    unfolding options_def by code_simp
  have h: "getAuthorizationHeader runtime example_client example_world
             (auth_for example_client (withAuth options))
           = (Inr ''Bearer resolved'', example_client, example_world)"
    by (simp add: options_def auth_for_def getAuthorizationHeader_string)
  have v: "normalize_value ''Bearer resolved'' = ''Bearer resolved'' \<and>
           valid_value ''Bearer resolved''"
    by code_simp
  have "call = (fst call, fst (snd call), snd (snd call))" by simp
  from fetch_authorization [OF t this [unfolded call_def], where h = "''Bearer resolved''"
      and merged = "[(''content-type'', ''application/json''), (''accept'', ''application/json''),
                    (''authorization'', ''Bearer caller'')]"
      and ?c1.0 = example_client and ?w1.0 = example_world] t m h v
  show ?thesis
    by (simp add: options_def call_def example_world_def)
qed

text \<open>
  Claim C10 as it is written fails: the request does not always carry exactly the
  value that \<open>getAuthorizationHeader\<close> produces. For the token
  \<^verbatim>\<open>{access_token: "", token_type: "Bearer"}\<close> the header produced is \<^verbatim>\<open>Bearer\<close>
  with a space after it, and the request carries \<^verbatim>\<open>Bearer\<close> without the space.
  For a header with a line feed in it, \<open>fetch\<close> throws and no request is sent.
\<close>

theorem fetch_authorization_whitespace_counterexample:
  "fst (getAuthorizationHeader runtime example_client example_world
     (Some (AuthObject (no_fields\<lparr>access_token := Some [], token_type := Some ''Bearer''\<rparr>))))
     = Inr ''Bearer '' \<and>
   map (\<lambda>r. case headers (request_init r) of
               Some (HeadersObject hs) \<Rightarrow> Headers_get hs ''Authorization'' | _ \<Rightarrow> None)
     (sent (snd (snd (fetch runtime example_client example_world (InputString ''/jsonapi'')
        \<lparr>method' = None, headers = None, body = None, credentials = None,
         withAuth = Some (WithAuthConfig (AuthObject
           (no_fields\<lparr>access_token := Some [], token_type := Some ''Bearer''\<rparr>)))\<rparr>))))
     = [Some ''Bearer''] \<and>
   ''Bearer'' \<noteq> ''Bearer '' \<and>
   fst (fetch runtime example_client example_world (InputString ''/jsonapi'')
        \<lparr>method' = None, headers = None, body = None, credentials = None,
         withAuth = Some (WithAuthConfig (AuthString (''Bearer a'' @ [CHR 0x0A] @ ''b'')))\<rparr>)
     = Inl invalid_header \<and>
   sent (snd (snd (fetch runtime example_client example_world (InputString ''/jsonapi'')
        \<lparr>method' = None, headers = None, body = None, credentials = None,
         withAuth = Some (WithAuthConfig (AuthString (''Bearer a'' @ [CHR 0x0A] @ ''b'')))\<rparr>)))
     = []"
  by code_simp

subsection \<open>Validating a draft URL\<close>

lemma validateDraftUrl_unfold:
  "validateDraftUrl rt c w searchParams =
     (case buildUrl rt c ''/next/draft-url'' None of
        Inl e \<Rightarrow>
          (case message rt e of
             Inl thrown \<Rightarrow> (Inl thrown, c, w)
           | Inr m \<Rightarrow>
               (Inr (Response_new_json
                       (JObj (case m of Some v \<Rightarrow> [(''message'', v)] | None \<Rightarrow> [])) 401), c, w))
      | Inr u \<Rightarrow>
          (case call_transport (transport_of c w) (draft_request rt c u searchParams) w of
             (Inl e, w1) \<Rightarrow>
               (case message rt e of
                  Inl thrown \<Rightarrow> (Inl thrown, c, w1)
                | Inr m \<Rightarrow>
                    (Inr (Response_new_json
                            (JObj (case m of Some v \<Rightarrow> [(''message'', v)] | None \<Rightarrow> [])) 401),
                     c, w1))
           | (Inr response, w1) \<Rightarrow> (Inr response, c, w1)))"
proof -
  define options where "options =
     \<lparr>method' = Some ''POST'',
      headers = Some (HeadersPairs
        [(''Accept'', ''application/vnd.api+json''),
         (''Content-Type'', ''application/json'')]),
      body = Some (BodyJson (Object_fromEntries searchParams)),
      credentials = None,
      withAuth = None\<rparr>"
  have na: "\<not> truthy_withAuth (withAuth options)"
    by (simp add: truthy_withAuth_def options_def)
  have merge: "merge_headers (client_headers c) (headers options)
      = Inr (alist_set ''content-type'' ''application/json''
              (alist_set ''accept'' ''application/vnd.api+json'' (Headers_copy (client_headers c))))"
    unfolding options_def using merge_headers_draft by simp
  have f: "fetch rt c w (InputString (URL_toString rt u)) options =
     (case call_transport (transport_of c w) (draft_request rt c u searchParams) w
      of (r, w2) \<Rightarrow> (r, c, w2))" for u
    unfolding fetch_without_auth [OF na merge]
    by (simp add: draft_request_def options_def RequestInit.truncate_def)
  show ?thesis
    unfolding validateDraftUrl_def options_def [symmetric] f
    by (simp split: sum.splits prod.splits)
qed

text \<open>
  What \<open>validateDraftUrl\<close> does with the outcome of the request: a response is
  returned as it is; a thrown error with the message \<open>m\<close> gives a response with
  status 401 and the body \<^verbatim>\<open>{message: m}\<close>; a thrown value without a property
  \<^verbatim>\<open>message\<close> gives the body \<^verbatim>\<open>{}\<close>; for \<^verbatim>\<open>null\<close> and \<^verbatim>\<open>undefined\<close> the read
  of the message throws, and so does the method.
\<close>

lemma validateDraftUrl_outcomes:
  assumes "buildUrl rt c ''/next/draft-url'' None = Inr u"
  shows
   "(fst (transport_of c w (draft_request rt c u searchParams) (now w)) = Inr r \<longrightarrow>
      fst (validateDraftUrl rt c w searchParams) = Inr r) \<and>
    (fst (transport_of c w (draft_request rt c u searchParams) (now w)) = Inl e \<and>
     message rt e = Inr m \<longrightarrow>
      (\<exists>response. fst (validateDraftUrl rt c w searchParams) = Inr response \<and>
         status response = 401 \<and> \<not> ok response \<and>
         json response = Inr (JObj (case m of Some v \<Rightarrow> [(''message'', v)] | None \<Rightarrow> [])))) \<and>
    (fst (transport_of c w (draft_request rt c u searchParams) (now w)) = Inl e \<and>
     message rt e = Inl thrown \<longrightarrow>
      fst (validateDraftUrl rt c w searchParams) = Inl thrown) \<and>
    sent (snd (snd (validateDraftUrl rt c w searchParams)))
      = sent w @ [draft_request rt c u searchParams]"
  using assms
  by (cases "transport_of c w (draft_request rt c u searchParams) (now w)")
     (auto simp: validateDraftUrl_unfold call_transport_def Response_new_json_def
       split: sum.splits)

lemma validateDraftUrl_fetch_failed:
  "\<exists>response.
     fst (validateDraftUrl runtime example_client failing_world [(''path'', ''/blog/first'')])
       = Inr response \<and>
     status response = 401 \<and> \<not> ok response \<and>
     json response = Inr (JObj [(''message'', JStr ''fetch failed'')])"
proof -
  have t: "fst (transport_of example_client failing_world request t)
             = Inl (PlatformError ''fetch failed'')" for request t
    by (simp add: transport_of_def example_client_def failing_world_def)
  have m: "message runtime (PlatformError ''fetch failed'') = Inr (Some (JStr ''fetch failed''))"
    by (simp add: message_def)
  from validateDraftUrl_outcomes [OF buildUrl_draft_url, of failing_world
      "[(''path'', ''/blog/first'')]" _ "PlatformError ''fetch failed''"
      "Some (JStr ''fetch failed'')"] t m
  show ?thesis by simp
qed

text \<open>
  Claim C9 says that \<open>validateDraftUrl\<close> never lets a failure of the transport
  through: whenever the request throws, the method returns a response with status
  401. The \<^verbatim>\<open>catch\<close> block is there for that, but it reads \<^verbatim>\<open>error.message\<close>
  of whatever was thrown. On the client whose \<^verbatim>\<open>fetcher\<close> rejects with
  \<^verbatim>\<open>undefined\<close>, the request is handed over, the read throws a \<^verbatim>\<open>TypeError\<close>, and
  the method throws it: no response is returned.
\<close>

theorem validateDraftUrl_rejection:
  "fst (validateDraftUrl runtime rejecting_client example_world [(''path'', ''/blog/first'')])
     = Inl (cannot_read ''undefined'' ''message'') \<and>
   cannot_read ''undefined'' ''message''
     = PlatformError (''Cannot read properties of undefined (reading '' @ [CHR 0x27] @
                      ''message'' @ [CHR 0x27] @ '')'') \<and>
   length (sent (snd (snd (validateDraftUrl runtime rejecting_client example_world
     [(''path'', ''/blog/first'')])))) = 1"
  by code_simp

end
